theory Spec2Isabelle
  imports Main "HOL-Library.Sublist"
begin

section \<open>The Gnip activity object\<close>

text \<open>
  Only the properties of a tweet activity that \<^verbatim>\<open>CognicityReportsPowertrack.js\<close> reads are
  kept. A property that may be absent (\<^verbatim>\<open>undefined\<close> or \<^verbatim>\<open>null\<close>) is an \<open>option\<close>.
  A coordinate is carried as the text JavaScript prints for the number, since the
  program only ever concatenates it into a string. The entity lists are carried as the
  text \<^verbatim>\<open>JSON.stringify\<close> gives for them.
\<close>

record rule =
  tag :: "string option"

record geo_t =
  coordinates :: "string list option"

record actor_t =
  preferredUsername :: string

record entities_t =
  hashtags :: string
  urls :: string
  user_mentions :: string

record gnip_t =
  matching_rules :: "rule list"

record tweetActivity =
  actor :: actor_t
  body :: string
  postedTime :: string
  twitter_lang :: string
  twitter_entities :: entities_t
  geo :: "geo_t option"
  gnip :: gnip_t

section \<open>JavaScript primitives used by the program\<close>

text \<open>
  \<^verbatim>\<open>s.indexOf(needle)\<close>: the position of the first occurrence of \<open>needle\<close> in \<open>s\<close>,
  or \<open>-1\<close>. The second argument of \<open>indexOf_from\<close> counts the characters already skipped.
\<close>

fun indexOf_from :: "nat \<Rightarrow> string \<Rightarrow> string \<Rightarrow> int" where
  "indexOf_from i needle [] = (if needle = [] then int i else - 1)"
| "indexOf_from i needle (c # s) =
     (if prefix needle (c # s) then int i else indexOf_from (Suc i) needle s)"

definition indexOf :: "string \<Rightarrow> string \<Rightarrow> int" where
  "indexOf s needle = indexOf_from 0 needle s"

text \<open>\<^verbatim>\<open>xs[i]\<close> printed inside a string concatenation: out of range it is \<^verbatim>\<open>undefined\<close>.\<close>

definition js_at :: "string list \<Rightarrow> nat \<Rightarrow> string" where
  "js_at xs i = (if i < length xs then xs ! i else ''undefined'')"

text \<open>\<^verbatim>\<open>s.replace("\n", "")\<close> with a string pattern removes the first newline only.\<close>

fun remove_first_newline :: "string \<Rightarrow> string" where
  "remove_first_newline [] = []"
| "remove_first_newline (c # s) =
     (if c = CHR 0x0A then s else c # remove_first_newline s)"

text \<open>
  The members every object created by an object literal inherits from
  \<^verbatim>\<open>Object.prototype\<close>. \<^verbatim>\<open>x[key]\<close> finds them when \<open>x\<close> has no property of its own under
  that key. Each of them is a function, or for \<^verbatim>\<open>__proto__\<close> the prototype object, and is
  true when read as a condition.
\<close>

definition object_members :: "string list" where
  "object_members =
     [''constructor'', ''hasOwnProperty'', ''isPrototypeOf'', ''propertyIsEnumerable'',
      ''toLocaleString'', ''toString'', ''valueOf'', ''__proto__'',
      ''__defineGetter__'', ''__defineSetter__'', ''__lookupGetter__'', ''__lookupSetter__'']"

text \<open>
  What \<^verbatim>\<open>config.twitter[code][lang]\<close> can be when it is true as a condition: a text of
  the configuration; the inherited member of that name; or the property \<open>lang\<close> of a
  member \<open>code\<close> of \<^verbatim>\<open>config.twitter\<close> that is not a table of texts.
\<close>

datatype jsvalue = Text string | Inherited string | Foreign string string

text \<open>
  A JavaScript number, as far as \<^verbatim>\<open>streamReconnectTimeout\<close> needs it: the program starts
  it at 1, doubles it, and multiplies it by 1000. A double holds \<open>2 ^ k\<close> and
  \<open>1000 * 2 ^ k\<close> exactly as long as they are below \<open>2 ^ 1024\<close>, and the product is
  \<^verbatim>\<open>Infinity\<close> from there on. \<open>js_times x k\<close> is \<^verbatim>\<open>x * k\<close> for these numbers.
\<close>

datatype number = Finite nat | Infinity

definition js_times :: "number \<Rightarrow> nat \<Rightarrow> number" where
  "js_times x k =
     (case x of
        Finite n \<Rightarrow> if n * k < 2 ^ 1024 then Finite (n * k) else Infinity
      | Infinity \<Rightarrow> Infinity)"

section \<open>Categorisation by the Gnip tags (the first half of \<^verbatim>\<open>filter\<close>)\<close>

record flags =
  geoInBoundingBox :: bool
  addressed :: bool
  locationMatch :: bool

text \<open>
  \<^verbatim>\<open>var hasGeo = (tweetActivity.geo && tweetActivity.geo.coordinates)\<close>, read as a
  condition: an array is truthy even when it is empty.
\<close>

definition hasGeo :: "tweetActivity \<Rightarrow> bool" where
  "hasGeo t = (case geo t of None \<Rightarrow> False | Some g \<Rightarrow> coordinates g \<noteq> None)"

text \<open>
  The body of the \<^verbatim>\<open>forEach\<close> callback. \<^verbatim>\<open>if (rule.tag)\<close> is false for an absent tag and
  for the empty string.
\<close>

definition visit_rule :: "flags \<Rightarrow> rule \<Rightarrow> flags" where
  "visit_rule f r =
     (case tag r of
        None \<Rightarrow> f
      | Some t \<Rightarrow>
          if t = [] then f
          else
            let f1 = (if indexOf t ''geo'' = 0 then f\<lparr>geoInBoundingBox := True\<rparr> else f);
                f2 = (if indexOf t ''addressed'' = 0 then f1\<lparr>addressed := True\<rparr> else f1);
                f3 = (if indexOf t ''location'' = 0 then f2\<lparr>locationMatch := True\<rparr> else f2)
            in f3)"

definition categorize :: "tweetActivity \<Rightarrow> flags" where
  "categorize t =
     foldl visit_rule
       \<lparr>geoInBoundingBox = False, addressed = False, locationMatch = False\<rparr>
       (matching_rules (gnip t))"

text \<open>The string \<^verbatim>\<open>tweetCategorizations\<close> that \<^verbatim>\<open>filter\<close> logs.\<close>

definition sign :: "bool \<Rightarrow> string" where
  "sign b = (if b then ''+'' else ''-'')"

definition tweetCategorizations :: "tweetActivity \<Rightarrow> string" where
  "tweetCategorizations t =
     sign (geoInBoundingBox (categorize t)) @ ''BOUNDINGBOX '' @
     sign (hasGeo t) @ ''GEO '' @
     sign (addressed (categorize t)) @ ''ADDRESSED '' @
     sign (locationMatch (categorize t)) @ ''LOCATION''"

text \<open>
  The conditions of the \<^verbatim>\<open>if\<close> / \<^verbatim>\<open>else if\<close> chain of \<^verbatim>\<open>filter\<close>, in the order of the source,
  with a name for the branch taken. The arguments are \<open>geoInBoundingBox\<close>, \<open>hasGeo\<close>,
  \<open>addressed\<close> and \<open>locationMatch\<close>.
\<close>

datatype verdict = Confirmed | AskForGeo | Unconfirmed | Invite | Unmatched

definition classify :: "bool \<Rightarrow> bool \<Rightarrow> bool \<Rightarrow> bool \<Rightarrow> verdict" where
  "classify g h a l =
     (if g \<and> a then Confirmed
      else if \<not> g \<and> \<not> h \<and> a \<and> l then AskForGeo
      else if g \<and> \<not> a then Unconfirmed
      else if \<not> g \<and> \<not> h \<and> \<not> a \<and> l then Invite
      else Unmatched)"

definition verdict_of :: "tweetActivity \<Rightarrow> verdict" where
  "verdict_of t =
     classify (geoInBoundingBox (categorize t)) (hasGeo t)
       (addressed (categorize t)) (locationMatch (categorize t))"

section \<open>Configuration\<close>

text \<open>
  The configuration properties the module reads. \<^verbatim>\<open>config.pg.X\<close>, \<^verbatim>\<open>config.twitter.X\<close>
  and \<^verbatim>\<open>config.gnip.X\<close> are the field \<open>X\<close>. \<^verbatim>\<open>send_enabled\<close> is true when the configured
  value is the boolean \<^verbatim>\<open>true\<close> (the source compares with \<^verbatim>\<open>===\<close>).

  \<^verbatim>\<open>getMessage\<close> reads \<^verbatim>\<open>config.twitter[code]\<close> for any \<open>code\<close>. \<open>messages\<close> holds the
  members of \<^verbatim>\<open>config.twitter\<close> that are tables of texts, each with the texts it has as
  properties of its own. \<open>foreign\<close> holds every other member that is true as a condition
  (another setting such as \<^verbatim>\<open>defaultLanguage\<close>, or an inherited member such as
  \<^verbatim>\<open>constructor\<close>), with the keys under which it has a property that is true as a
  condition; what these are is fixed by the rest of the configuration and by the
  runtime, and reading such a property is taken to return.

  \<open>steamUrl\<close> is \<^verbatim>\<open>config.gnip.steamUrl\<close>, the property \<^verbatim>\<open>connectStream\<close> passes as the url
  of the stream; it is \<open>None\<close> when the configuration does not set a property of that
  name.
\<close>

record config =
  conString :: string
  table_all_users :: string
  table_tweets :: string
  table_invitees :: string
  table_unconfirmed :: string
  table_nonspatial_tweet_reports :: string
  table_nonspatial_users :: string
  send_enabled :: bool
  defaultLanguage :: string
  messages :: "string \<Rightarrow> (string \<Rightarrow> string option) option"
  foreign :: "string \<Rightarrow> (string \<Rightarrow> bool) option"
  steamUrl :: "string option"
  rulesUrl :: string
  username :: string
  password :: string
  streamTimeout :: nat
  rules :: "(string \<times> string) list"

section \<open>The database, Twitter and the log\<close>

text \<open>
  One constructor for each SQL statement of the source, with the table it names and
  the positional values it passes.
\<close>

datatype query =
    SelectUserHash string string
  | InsertTweet string "string list"
  | UpsertTweetUsers string
  | InsertInvitee string string
  | InsertUnConfirmed string "string list"
  | InsertNonSpatial string "string list"
  | InsertNonSpatialUser string string

fun sql :: "query \<Rightarrow> string" where
  "sql (SelectUserHash tbl u) =
     ''SELECT user_hash FROM '' @ tbl @ '' WHERE user_hash = md5($1);''"
| "sql (InsertTweet tbl vs) =
     ''INSERT INTO '' @ tbl @ '' '' @
     ''(created_at, text, hashtags, urls, user_mentions, lang, the_geom) '' @
     ''VALUES ('' @
     ''to_timestamp($1::text, '' @ [CHR 0x27] @ ''Dy Mon DD YYYY HH24:MI:SS +ZZZZ'' @ [CHR 0x27] @ ''), '' @
     ''$2, '' @ ''$3, '' @ ''$4, '' @ ''$5, '' @ ''$6, '' @
     ''ST_GeomFromText('' @ [CHR 0x27] @ ''POINT($7)'' @ [CHR 0x27] @ '',4326)'' @
     '');''"
| "sql (UpsertTweetUsers u) = ''SELECT upsert_tweet_users(md5($1));''"
| "sql (InsertInvitee tbl u) =
     ''INSERT INTO '' @ tbl @ '' (user_hash) VALUES (md5($1));''"
| "sql (InsertUnConfirmed tbl vs) =
     ''INSERT INTO '' @ tbl @ '' '' @
     ''(created_at, the_geom) '' @
     ''VALUES ( '' @
     ''to_timestamp($1::text, '' @ [CHR 0x27] @ ''Dy Mon DD YYYY HH24:MI:SS +ZZZZ'' @ [CHR 0x27] @ ''), '' @
     ''ST_GeomFromText('' @ [CHR 0x27] @ ''POINT($2)'' @ [CHR 0x27] @ '',4326)'' @
     '');''"
| "sql (InsertNonSpatial tbl vs) =
     ''INSERT INTO '' @ tbl @ '' '' @
     ''(created_at, text, hashtags, urls, user_mentions, lang) '' @
     ''VALUES ('' @
     ''to_timestamp($1::text, '' @ [CHR 0x27] @ ''Dy Mon DD YYYY H24:MI:SS +ZZZZ'' @ [CHR 0x27] @ ''), '' @
     ''$2, '' @ ''$3, '' @ ''$4, '' @ ''$5, '' @ ''$6'' @
     '');''"
| "sql (InsertNonSpatialUser tbl u) =
     ''INSERT INTO '' @ tbl @ '' (user_hash) VALUES (md5($1));''"

fun params :: "query \<Rightarrow> string list" where
  "params (SelectUserHash tbl u) = [u]"
| "params (InsertTweet tbl vs) = vs"
| "params (UpsertTweetUsers u) = [u]"
| "params (InsertInvitee tbl u) = [u]"
| "params (InsertUnConfirmed tbl vs) = vs"
| "params (InsertNonSpatial tbl vs) = vs"
| "params (InsertNonSpatialUser tbl u) = [u]"

record result =
  rows :: "string list list"

text \<open>
  The exceptions of the program: the \<^verbatim>\<open>TypeError\<close> of reading a property of \<^verbatim>\<open>undefined\<close>
  (with the expression that was \<^verbatim>\<open>undefined\<close>), the error the callback of \<^verbatim>\<open>rules.update\<close>
  rethrows, and the error \<^verbatim>\<open>stream.start()\<close> throws when the stream has no url.
\<close>

datatype exn = TypeError string | Rethrown string | InvalidEndpoint

text \<open>
  What the program cannot decide and the runtime, PostgreSQL and Twitter do:
  \<^item> \<open>md5\<close>: PostgreSQL's \<^verbatim>\<open>md5\<close>;
  \<^item> \<open>after_write\<close>: what a statement that succeeded leaves in the \<^verbatim>\<open>user_hash\<close> column of
    the all-users table (the schema, its triggers and \<^verbatim>\<open>upsert_tweet_users\<close> are not part
    of the repository);
  \<^item> \<open>connect_err\<close>, \<open>query_err\<close>, \<open>tweet_err\<close>: the error, if any, that the \<open>n\<close>-th call of
    \<^verbatim>\<open>pg.connect\<close>, \<^verbatim>\<open>client.query\<close> and \<^verbatim>\<open>twit.updateStatus\<close> passes to its callback;
  \<^item> \<open>toLocaleString\<close>: \<^verbatim>\<open>new Date(Date.parse(s)).toLocaleString()\<close>;
  \<^item> \<open>number_text\<close>: a number printed by string concatenation;
  \<^item> \<open>value_text\<close>: a value that is not a text (a function, an object) printed by string
    concatenation;
  \<^item> \<open>message\<close>, \<open>stack\<close>: the properties of a caught error.
\<close>

record env =
  md5 :: "string \<Rightarrow> string"
  after_write :: "query \<Rightarrow> string list \<Rightarrow> string list"
  connect_err :: "nat \<Rightarrow> string option"
  query_err :: "nat \<Rightarrow> string option"
  tweet_err :: "nat \<Rightarrow> string option"
  toLocaleString :: "string \<Rightarrow> string"
  number_text :: "number \<Rightarrow> string"
  value_text :: "jsvalue \<Rightarrow> string"
  message :: "exn \<Rightarrow> string"
  stack :: "exn \<Rightarrow> string"

text \<open>
  A value printed by string concatenation: \<^verbatim>\<open>null\<close> prints as \<^verbatim>\<open>null\<close>, a text as
  itself.
\<close>

definition js_string :: "env \<Rightarrow> jsvalue option \<Rightarrow> string" where
  "js_string env m =
     (case m of
        None \<Rightarrow> ''null''
      | Some (Text s) \<Rightarrow> s
      | Some v \<Rightarrow> value_text env v)"

datatype level = Debug | Verbose | Info | Warn | Error

datatype json = JQuery query | JTweet tweetActivity | JRules "(string \<times> string) list"

text \<open>
  The trace lists, in order, the calls the program makes on its collaborators and the
  callbacks they make on it. \<open>LogJSON lvl a j b\<close> is a log line whose text is \<open>a\<close>,
  then \<^verbatim>\<open>JSON.stringify\<close> of \<open>j\<close>, then \<open>b\<close>.
\<close>

datatype event =
    Log level string
  | LogJSON level string json string
  | PgConnect string
  | PgConnected "string option"
  | PgQuery query
  | PgResult "string option"
  | PgDone
  | TwitUpdateStatus string
  | TwitReplied "string option"
  | RulesUpdate "(string \<times> string) list"
  | StreamStart
  | SocketDestroy
  | SocketSetTimeout nat
  | SetTimeout nat number
  | ClearTimeout nat

text \<open>
  \<open>all_users\<close> is the \<^verbatim>\<open>user_hash\<close> column of the table \<^verbatim>\<open>config.pg.table_all_users\<close>;
  \<open>connects\<close>, \<open>queries\<close> and \<open>updates\<close> count the calls made so far.
\<close>

record world =
  trace :: "event list"
  all_users :: "string list"
  connects :: nat
  queries :: nat
  updates :: nat

section \<open>Statements, exceptions and sequencing\<close>

text \<open>
  A statement runs in a world and leaves a world, and may throw. Every asynchronous
  call is run to completion where it is made: its callback runs at the call, with the
  outcome the environment gives. The order of the trace is therefore one in which each
  callback follows the call it answers, as it does in every run of the program.
\<close>

type_synonym action = "world \<Rightarrow> exn option \<times> world"

definition skip :: action where
  "skip w = (None, w)"

definition throw :: "exn \<Rightarrow> action" where
  "throw e w = (Some e, w)"

fun block :: "action list \<Rightarrow> action" where
  "block [] w = (None, w)"
| "block (a # as) w =
     (case a w of
        (Some e, w') \<Rightarrow> (Some e, w')
      | (None, w') \<Rightarrow> block as w')"

definition try_catch :: "action \<Rightarrow> (exn \<Rightarrow> action) \<Rightarrow> action" where
  "try_catch a handler w =
     (case a w of
        (Some e, w') \<Rightarrow> handler e w'
      | (None, w') \<Rightarrow> (None, w'))"

definition emit :: "event \<Rightarrow> action" where
  "emit e w = (None, w\<lparr>trace := trace w @ [e]\<rparr>)"

definition logger :: "level \<Rightarrow> string \<Rightarrow> action" where
  "logger lvl msg = emit (Log lvl msg)"

definition logger_json :: "level \<Rightarrow> string \<Rightarrow> json \<Rightarrow> string \<Rightarrow> action" where
  "logger_json lvl a j b = emit (LogJSON lvl a j b)"

section \<open>The collaborators\<close>

text \<open>
  \<^verbatim>\<open>pg.connect(conString, callback)\<close>: the call, then the callback with the error the
  environment gives for this call.
\<close>

definition pg_connect :: "env \<Rightarrow> string \<Rightarrow> world \<Rightarrow> string option \<times> world" where
  "pg_connect env cs w =
     (let err = connect_err env (connects w)
      in (err, w\<lparr>connects := Suc (connects w),
                  trace := trace w @ [PgConnect cs, PgConnected err]\<rparr>))"

text \<open>
  The rows a statement that succeeds returns. The \<^verbatim>\<open>SELECT\<close> of \<^verbatim>\<open>ifNewUser\<close> returns one
  row for each row of the all-users table whose hash is the \<^verbatim>\<open>md5\<close> of the name; the
  other statements return no row.
\<close>

fun pg_rows :: "env \<Rightarrow> query \<Rightarrow> string list \<Rightarrow> string list list" where
  "pg_rows env (SelectUserHash tbl u) hashes =
     map (\<lambda>h. [h]) (filter (\<lambda>h. h = md5 env u) hashes)"
| "pg_rows env q hashes = []"

text \<open>The all-users column after a statement that succeeds: a \<^verbatim>\<open>SELECT\<close> leaves it.\<close>

fun pg_write :: "env \<Rightarrow> query \<Rightarrow> string list \<Rightarrow> string list" where
  "pg_write env (SelectUserHash tbl u) hashes = hashes"
| "pg_write env q hashes = after_write env q hashes"

text \<open>
  \<^verbatim>\<open>client.query(config, callback)\<close>: the call, then the callback with either the error
  the environment gives for this call (the statement then changes nothing) or the
  result.
\<close>

definition client_query :: "env \<Rightarrow> query \<Rightarrow> world \<Rightarrow> (string + result) \<times> world" where
  "client_query env q w =
     (let err = query_err env (queries w);
          w1 = w\<lparr>queries := Suc (queries w),
                 trace := trace w @ [PgQuery q, PgResult err]\<rparr>
      in case err of
           Some e \<Rightarrow> (Inl e, w1)
         | None \<Rightarrow>
             (Inr \<lparr>rows = pg_rows env q (all_users w)\<rparr>,
              w1\<lparr>all_users := pg_write env q (all_users w)\<rparr>))"

definition pg_done :: action where
  "pg_done = emit PgDone"

text \<open>\<^verbatim>\<open>twit.updateStatus(status, callback)\<close>: the call, then the callback.\<close>

definition twit_updateStatus :: "env \<Rightarrow> string \<Rightarrow> world \<Rightarrow> string option \<times> world" where
  "twit_updateStatus env status w =
     (let err = tweet_err env (updates w)
      in (err, w\<lparr>updates := Suc (updates w),
                  trace := trace w @ [TwitUpdateStatus status, TwitReplied err]\<rparr>))"

section \<open>The methods of \<^verbatim>\<open>CognicityReportsPowertrack.prototype\<close>\<close>

text \<open>
  \<^verbatim>\<open>self.config.twitter[code]\<close> when it is true as a condition: a table of texts, or
  another member.
\<close>

datatype twitter_member = Table "string \<Rightarrow> string option" | Other string "string \<Rightarrow> bool"

definition twitter_get :: "config \<Rightarrow> string \<Rightarrow> twitter_member option" where
  "twitter_get cfg code =
     (case messages cfg code of
        Some texts \<Rightarrow> Some (Table texts)
      | None \<Rightarrow> map_option (Other code) (foreign cfg code))"

text \<open>
  \<^verbatim>\<open>x[lang]\<close> for such a member \<open>x\<close>, when it is true as a condition. In a table, a text
  of its own under that key is found first, and the empty text is false as a condition;
  without one, the lookup goes on to the inherited members.
\<close>

fun member_get :: "twitter_member \<Rightarrow> string \<Rightarrow> jsvalue option" where
  "member_get (Table texts) lang =
     (case texts lang of
        Some m \<Rightarrow> if m = [] then None else Some (Text m)
      | None \<Rightarrow> if lang \<in> set object_members then Some (Inherited lang) else None)"
| "member_get (Other code has) lang = (if has lang then Some (Foreign code lang) else None)"

definition getMessage :: "config \<Rightarrow> string \<Rightarrow> string \<Rightarrow> world \<Rightarrow> jsvalue option \<times> world" where
  "getMessage cfg code lang w =
     (let unresolved =
            (None,
             snd (logger Warn
                    (''getMessage: Code could not be resolved for '' @ [CHR 0x27] @ code @
                     [CHR 0x27] @ '' and lang '' @ [CHR 0x27] @ lang @ [CHR 0x27]) w))
      in case twitter_get cfg code of
           None \<Rightarrow> unresolved
         | Some x \<Rightarrow>
             (case member_get x lang of
                Some v \<Rightarrow> (Some v, w)
              | None \<Rightarrow>
                  (case member_get x (defaultLanguage cfg) of
                     Some v \<Rightarrow> (Some v, w)
                   | None \<Rightarrow> unresolved)))"

text \<open>
  \<^verbatim>\<open>dbQuery(config, success)\<close>. The callback is optional (\<^verbatim>\<open>if (success)\<close>); an exception it
  throws is caught and logged.
\<close>

definition dbQuery :: "config \<Rightarrow> env \<Rightarrow> query \<Rightarrow> (result \<Rightarrow> action) option \<Rightarrow> action" where
  "dbQuery cfg env q success w =
     (let w1 = snd (logger_json Debug ''dbQuery: executing query: '' (JQuery q) [] w);
          (err, w2) = pg_connect env (conString cfg) w1
      in case err of
           Some e \<Rightarrow>
             block [logger_json Error ''dbQuery: '' (JQuery q) ('', '' @ e), pg_done] w2
         | None \<Rightarrow>
             (case client_query env q w2 of
                (Inl e, w3) \<Rightarrow>
                  block [logger_json Error ''dbQuery: '' (JQuery q) ('', '' @ e), pg_done] w3
              | (Inr res, w3) \<Rightarrow>
                  block
                    [pg_done,
                     logger_json Debug ''dbQuery: success: '' (JQuery q) [],
                     (case success of
                        None \<Rightarrow> skip
                      | Some f \<Rightarrow>
                          try_catch (f res)
                            (\<lambda>error. logger Error
                               (''dbQuery: Error in success callback: '' @ message env error @
                                '', '' @ stack env error)))] w3))"

definition ifNewUser :: "config \<Rightarrow> env \<Rightarrow> string \<Rightarrow> (result \<Rightarrow> action) \<Rightarrow> action" where
  "ifNewUser cfg env user success =
     dbQuery cfg env (SelectUserHash (table_all_users cfg) user)
       (Some (\<lambda>res.
          if length (rows res) = 0 then success res
          else logger Debug ''Not performing callback as user already exists''))"

text \<open>
  \<^verbatim>\<open>sendReplyTweet(user, message, callback)\<close>. The message is the value \<^verbatim>\<open>getMessage\<close>
  returned, \<^verbatim>\<open>null\<close> included; the callback is optional. \<open>dispatch\<close> is the function
  \<^verbatim>\<open>sendReplyTweet\<close> passes to \<^verbatim>\<open>ifNewUser\<close>.
\<close>

definition dispatch ::
  "config \<Rightarrow> env \<Rightarrow> string \<Rightarrow> jsvalue option \<Rightarrow> action option \<Rightarrow> action" where
  "dispatch cfg env user msg callback =
     (if send_enabled cfg then
        (\<lambda>w. case twit_updateStatus env (''@'' @ user @ '' '' @ js_string env msg) w of
               (Some err, w1) \<Rightarrow> logger Error (''Tweeting failed: '' @ err) w1
             | (None, w1) \<Rightarrow> (case callback of None \<Rightarrow> skip w1 | Some cb \<Rightarrow> cb w1))
      else
        block
          [logger Info
             ''sendReplyTweet is in test mode - no message will be sent. Callback will still run.'',
           logger Info (''@'' @ user @ '' '' @ js_string env msg),
           (case callback of None \<Rightarrow> skip | Some cb \<Rightarrow> cb)])"

definition sendReplyTweet ::
  "config \<Rightarrow> env \<Rightarrow> string \<Rightarrow> jsvalue option \<Rightarrow> action option \<Rightarrow> action" where
  "sendReplyTweet cfg env user msg callback =
     ifNewUser cfg env user (\<lambda>res. dispatch cfg env user msg callback)"

text \<open>
  \<^verbatim>\<open>tweetActivity.geo.coordinates[0] + " " + tweetActivity.geo.coordinates[1]\<close>: reading a
  property of \<^verbatim>\<open>undefined\<close> throws a \<^verbatim>\<open>TypeError\<close>.
\<close>

definition geo_point :: "tweetActivity \<Rightarrow> exn + string" where
  "geo_point t =
     (case geo t of
        None \<Rightarrow> Inl (TypeError ''tweetActivity.geo'')
      | Some g \<Rightarrow>
          (case coordinates g of
             None \<Rightarrow> Inl (TypeError ''tweetActivity.geo.coordinates'')
           | Some cs \<Rightarrow> Inr (js_at cs 0 @ '' '' @ js_at cs 1)))"

text \<open>
  The object literal passed to \<^verbatim>\<open>dbQuery\<close> is evaluated before the call, so the
  \<^verbatim>\<open>TypeError\<close> is thrown before \<^verbatim>\<open>dbQuery\<close> is entered.
\<close>

definition insertConfirmed :: "config \<Rightarrow> env \<Rightarrow> tweetActivity \<Rightarrow> action" where
  "insertConfirmed cfg env t =
     (case geo_point t of
        Inl e \<Rightarrow> throw e
      | Inr point \<Rightarrow>
          dbQuery cfg env
            (InsertTweet (table_tweets cfg)
               [toLocaleString env (postedTime t),
                body t,
                hashtags (twitter_entities t),
                urls (twitter_entities t),
                user_mentions (twitter_entities t),
                twitter_lang t,
                point])
            (Some (\<lambda>res.
               block
                 [logger Info ''Logged confirmed tweet report'',
                  dbQuery cfg env (UpsertTweetUsers (preferredUsername (actor t)))
                    (Some (\<lambda>res. logger Info ''Logged confirmed tweet user''))])))"

definition insertInvitee :: "config \<Rightarrow> env \<Rightarrow> tweetActivity \<Rightarrow> action" where
  "insertInvitee cfg env t =
     dbQuery cfg env (InsertInvitee (table_invitees cfg) (preferredUsername (actor t)))
       (Some (\<lambda>res. logger Info ''Logged new invitee''))"

definition insertUnConfirmed :: "config \<Rightarrow> env \<Rightarrow> tweetActivity \<Rightarrow> action" where
  "insertUnConfirmed cfg env t =
     (case geo_point t of
        Inl e \<Rightarrow> throw e
      | Inr point \<Rightarrow>
          dbQuery cfg env
            (InsertUnConfirmed (table_unconfirmed cfg)
               [toLocaleString env (postedTime t), point])
            (Some (\<lambda>res. logger Info ''Logged unconfirmed tweet report'')))"

definition insertNonSpatial :: "config \<Rightarrow> env \<Rightarrow> tweetActivity \<Rightarrow> action" where
  "insertNonSpatial cfg env t =
     block
       [dbQuery cfg env
          (InsertNonSpatial (table_nonspatial_tweet_reports cfg)
             [toLocaleString env (postedTime t),
              body t,
              hashtags (twitter_entities t),
              urls (twitter_entities t),
              user_mentions (twitter_entities t),
              twitter_lang t])
          (Some (\<lambda>res. logger Info ''Inserted non-spatial tweet'')),
        ifNewUser cfg env (preferredUsername (actor t))
          (\<lambda>res.
             dbQuery cfg env
               (InsertNonSpatialUser (table_nonspatial_users cfg) (preferredUsername (actor t)))
               (Some (\<lambda>res. logger Info ''Inserted non-spatial user'')))]"

text \<open>
  \<^verbatim>\<open>self.sendReplyTweet(user, self.getMessage(code, lang), callback)\<close>: the argument is
  evaluated first, and whatever it returns is passed on.
\<close>

definition reply :: "config \<Rightarrow> env \<Rightarrow> tweetActivity \<Rightarrow> string \<Rightarrow> action option \<Rightarrow> action" where
  "reply cfg env t code callback w =
     (case getMessage cfg code (twitter_lang t) w of
        (msg, w1) \<Rightarrow> sendReplyTweet cfg env (preferredUsername (actor t)) msg callback w1)"

definition received_line :: "tweetActivity \<Rightarrow> string" where
  "received_line t =
     ''filter: Received tweetActivity: screen_name=\"'' @ preferredUsername (actor t) @
     ''\", text=\"'' @ remove_first_newline (body t) @
     ''\", coordinates=\"'' @
     (case geo t of
        None \<Rightarrow> ''N/A''
      | Some g \<Rightarrow>
          (case coordinates g of
             None \<Rightarrow> ''N/A''
           | Some cs \<Rightarrow> js_at cs 0 @ '', '' @ js_at cs 1)) @
     ''\"''"

text \<open>The line each branch of \<^verbatim>\<open>filter\<close> logs first.\<close>

fun branch_log :: "tweetActivity \<Rightarrow> verdict \<Rightarrow> event" where
  "branch_log t Confirmed =
     Log Verbose ''filter: +BOUNDINGBOX +ADDRESSED = confirmed report''"
| "branch_log t AskForGeo =
     Log Verbose ''filter: -BOUNDINGBOX -GEO +ADDRESSED +LOCATION = ask user for geo''"
| "branch_log t Unconfirmed =
     Log Verbose ''filter: +BOUNDINGBOX -ADDRESSED = unconfirmed report, ask user to participate''"
| "branch_log t Invite =
     Log Verbose ''filter: -BOUNDINGBOX -GEO -ADDRESSED +LOCATION = ask user to participate''"
| "branch_log t Unmatched =
     Log Warn (''filter: Tweet did not match category actions: '' @ tweetCategorizations t)"

text \<open>The statements of each branch after its log line.\<close>

fun branch_body :: "config \<Rightarrow> env \<Rightarrow> tweetActivity \<Rightarrow> verdict \<Rightarrow> action" where
  "branch_body cfg env t Confirmed = insertConfirmed cfg env t"
| "branch_body cfg env t AskForGeo =
     block [insertNonSpatial cfg env t, reply cfg env t ''thanks_text'' None]"
| "branch_body cfg env t Unconfirmed =
     block
       [insertUnConfirmed cfg env t,
        reply cfg env t ''invite_text'' (Some (insertInvitee cfg env t))]"
| "branch_body cfg env t Invite =
     reply cfg env t ''invite_text'' (Some (insertInvitee cfg env t))"
| "branch_body cfg env t Unmatched = skip"

definition filter_tweet :: "config \<Rightarrow> env \<Rightarrow> tweetActivity \<Rightarrow> action" where
  "filter_tweet cfg env t =
     block
       [logger Verbose (received_line t),
        logger Verbose
          (''filter: Categorized tweetActivity via Gnip tags as '' @ tweetCategorizations t),
        emit (branch_log t (verdict_of t)),
        branch_body cfg env t (verdict_of t)]"

section \<open>\<^verbatim>\<open>connectStream\<close>\<close>

text \<open>
  The variables \<^verbatim>\<open>connectStream\<close> closes over (\<open>streamReconnectTimeout\<close>,
  \<open>reconnectTimeoutHandle\<close>) together with what the runtime and the Gnip stream hold:
  the timers set by \<^verbatim>\<open>setTimeout\<close> that have neither fired nor been cleared (handle and
  delay in milliseconds; the callback of each is \<^verbatim>\<open>reconnectSocket\<close>), the next timer
  handle, whether \<^verbatim>\<open>stream._req\<close> exists, and the world.
\<close>

record conn =
  streamReconnectTimeout :: number
  reconnectTimeoutHandle :: "nat option"
  timers :: "(nat \<times> nat) list"
  next_handle :: nat
  stream_req :: bool
  world_of :: world

definition in_world :: "action \<Rightarrow> conn \<Rightarrow> exn option \<times> conn" where
  "in_world a c = (case a (world_of c) of (x, w') \<Rightarrow> (x, c\<lparr>world_of := w'\<rparr>))"

definition observe :: "event \<Rightarrow> conn \<Rightarrow> conn" where
  "observe e c = c\<lparr>world_of := snd (emit e (world_of c))\<rparr>"

text \<open>
  The delay after which Node runs a timer set with \<^verbatim>\<open>setTimeout(callback, ms)\<close>: a delay
  below 1 or above \<open>2 ^ 31 - 1\<close> milliseconds, \<^verbatim>\<open>Infinity\<close> included, is replaced by 1.
\<close>

definition timer_delay :: "number \<Rightarrow> nat" where
  "timer_delay ms =
     (case ms of
        Finite n \<Rightarrow> if 1 \<le> n \<and> n \<le> 2147483647 then n else 1
      | Infinity \<Rightarrow> 1)"

text \<open>
  \<^verbatim>\<open>setTimeout(reconnectSocket, ms)\<close>: the event carries the number passed, the pending
  timer the delay after which it runs.
\<close>

definition setTimeout :: "number \<Rightarrow> conn \<Rightarrow> nat \<times> conn" where
  "setTimeout ms c =
     (let h = next_handle c
      in (h, observe (SetTimeout h ms)
               (c\<lparr>next_handle := Suc h, timers := timers c @ [(h, timer_delay ms)]\<rparr>)))"

definition clearTimeout :: "nat \<Rightarrow> conn \<Rightarrow> conn" where
  "clearTimeout h c =
     observe (ClearTimeout h) (c\<lparr>timers := filter (\<lambda>p. fst p \<noteq> h) (timers c)\<rparr>)"

text \<open>
  \<^verbatim>\<open>stream.start()\<close>. The stream was constructed with the url \<^verbatim>\<open>config.gnip.steamUrl\<close>.
  Without a url (the property is not set, or is the empty string) \<^verbatim>\<open>start\<close> throws;
  with one it opens the request, so \<^verbatim>\<open>stream._req\<close> exists afterwards.
\<close>

definition has_url :: "config \<Rightarrow> bool" where
  "has_url cfg = (case steamUrl cfg of None \<Rightarrow> False | Some u \<Rightarrow> u \<noteq> [])"

definition stream_start :: "config \<Rightarrow> conn \<Rightarrow> exn option \<times> conn" where
  "stream_start cfg c =
     (let c1 = observe StreamStart c
      in if has_url cfg then (None, c1\<lparr>stream_req := True\<rparr>)
         else (Some InvalidEndpoint, c1))"

text \<open>
  \<^verbatim>\<open>reconnectSocket\<close>: when \<^verbatim>\<open>stream.start()\<close> throws, the doubling after it is not
  reached.
\<close>

definition reconnectSocket :: "config \<Rightarrow> conn \<Rightarrow> exn option \<times> conn" where
  "reconnectSocket cfg c =
     (let c1 = observe (Log Warn ''connectStream: Connection lost, destroying socket'') c;
          c2 = (if stream_req c1 then observe SocketDestroy c1 else c1);
          c3 = observe (Log Info ''connectStream: Attempting to reconnect stream'') c2
      in case stream_start cfg c3 of
           (Some e, c4) \<Rightarrow> (Some e, c4)
         | (None, c4) \<Rightarrow>
             (None, c4\<lparr>streamReconnectTimeout := js_times (streamReconnectTimeout c4) 2\<rparr>))"

definition reconnectStream :: "env \<Rightarrow> conn \<Rightarrow> conn" where
  "reconnectStream env c =
     (let c1 = (case reconnectTimeoutHandle c of
                  Some h \<Rightarrow> clearTimeout h c
                | None \<Rightarrow> c);
          c2 = observe (Log Info (''connectStream: queing reconnect for '' @
                                number_text env (streamReconnectTimeout c1))) c1
      in case setTimeout (js_times (streamReconnectTimeout c2) 1000) c2 of
           (h, c3) \<Rightarrow> c3\<lparr>reconnectTimeoutHandle := Some h\<rparr>)"

text \<open>
  What reaches the handlers \<^verbatim>\<open>connectStream\<close> installs: the stream's \<^verbatim>\<open>ready\<close>, \<^verbatim>\<open>tweet\<close>,
  \<^verbatim>\<open>error\<close> and \<^verbatim>\<open>end\<close> events, the socket's idle timeout, a timer set by \<^verbatim>\<open>setTimeout\<close>
  firing, and the callback of \<^verbatim>\<open>rules.update\<close> with its error, if any.
\<close>

datatype signal =
    Ready
  | Tweet tweetActivity
  | StreamError string
  | StreamEnd
  | SocketTimeout
  | TimerFired nat
  | RulesUpdated "string option"

text \<open>
  One handler run. The first component is the exception that leaves the handler
  uncaught, which ends the process. The \<^verbatim>\<open>ready\<close> handler reads
  \<^verbatim>\<open>stream._req.setTimeout\<close> without a test, after it has logged and reset the delay:
  where \<^verbatim>\<open>stream._req\<close> does not exist this is a \<^verbatim>\<open>TypeError\<close>. A timer fires only while
  it is pending, and is pending no more once it fired.
\<close>

fun on_signal :: "config \<Rightarrow> env \<Rightarrow> signal \<Rightarrow> conn \<Rightarrow> exn option \<times> conn" where
  "on_signal cfg env Ready c =
     (let c1 = observe (Log Info ''connectStream: Stream ready!'') c;
          c2 = c1\<lparr>streamReconnectTimeout := Finite 1\<rparr>
      in if stream_req c2 then (None, observe (SocketSetTimeout (streamTimeout cfg)) c2)
         else (Some (TypeError ''stream._req''), c2))"
| "on_signal cfg env (Tweet t) c =
     in_world
       (block
          [logger_json Debug ''connectStream: stream.on('tweet'): tweet = '' (JTweet t) [],
           try_catch (filter_tweet cfg env t)
             (\<lambda>err. logger Error
                (''connectStream: stream.on('tweet'): Error on handler:'' @ message env err @
                 '', '' @ stack env err))]) c"
| "on_signal cfg env (StreamError err) c =
     (None, reconnectStream env
              (observe (Log Error (''connectStream: Error connecting stream:'' @ err)) c))"
| "on_signal cfg env StreamEnd c =
     (None, reconnectStream env (observe (Log Error ''connectStream: Stream ended'') c))"
| "on_signal cfg env SocketTimeout c = (None, reconnectStream env c)"
| "on_signal cfg env (TimerFired h) c =
     (if h \<in> set (map fst (timers c))
      then reconnectSocket cfg (c\<lparr>timers := filter (\<lambda>p. fst p \<noteq> h) (timers c)\<rparr>)
      else (None, c))"
| "on_signal cfg env (RulesUpdated err) c =
     (case err of
        Some e \<Rightarrow> (Some (Rethrown e), c)
      | None \<Rightarrow> stream_start cfg (observe (Log Info ''connectStream: Connecting stream...'') c))"

text \<open>The handlers run one after the other until one lets an exception escape.\<close>

fun run :: "config \<Rightarrow> env \<Rightarrow> signal list \<Rightarrow> conn \<Rightarrow> exn option \<times> conn" where
  "run cfg env [] c = (None, c)"
| "run cfg env (s # ss) c =
     (case on_signal cfg env s c of
        (Some e, c') \<Rightarrow> (Some e, c')
      | (None, c') \<Rightarrow> run cfg env ss c')"

text \<open>
  The body of \<^verbatim>\<open>connectStream\<close> itself: the closure variables are initialised, the rules
  of the configuration are listed as \<^verbatim>\<open>{tag, value}\<close> pairs and pushed with
  \<^verbatim>\<open>rules.update\<close>. No timer is pending and no request exists yet.
\<close>

definition connectStream :: "config \<Rightarrow> world \<Rightarrow> conn" where
  "connectStream cfg w =
     (let c = \<lparr>streamReconnectTimeout = Finite 1, reconnectTimeoutHandle = None, timers = [],
               next_handle = 0, stream_req = False, world_of = w\<rparr>;
          c1 = observe (LogJSON Debug ''connectStream: Rules = '' (JRules (rules cfg)) []) c;
          c2 = observe (Log Info ''connectStream: Updating rules...'') c1
      in observe (RulesUpdate (rules cfg)) c2)"

section \<open>The priority table of the specification\<close>

text \<open>
  The table of the specification's classifier, one row for each verdict in the order
  it is written, each with its condition on \<open>in-bounding-box\<close>, \<open>has-geo\<close>, \<open>addressed\<close>
  and \<open>location-match\<close>; the last row is "none of the above". \<open>first_match\<close> reads the
  table from the top and returns the verdict of the first row whose condition holds,
  if there is one.
\<close>

definition priority_table :: "(verdict \<times> (bool \<Rightarrow> bool \<Rightarrow> bool \<Rightarrow> bool \<Rightarrow> bool)) list" where
  "priority_table =
     [(Confirmed, \<lambda>g h a l. g \<and> a),
      (AskForGeo, \<lambda>g h a l. \<not> g \<and> \<not> h \<and> a \<and> l),
      (Unconfirmed, \<lambda>g h a l. g \<and> \<not> a),
      (Invite, \<lambda>g h a l. \<not> g \<and> \<not> h \<and> \<not> a \<and> l),
      (Unmatched, \<lambda>g h a l.
         \<not> (g \<and> a) \<and> \<not> (\<not> g \<and> \<not> h \<and> a \<and> l) \<and> \<not> (g \<and> \<not> a) \<and>
         \<not> (\<not> g \<and> \<not> h \<and> \<not> a \<and> l))]"

definition first_match :: "bool \<Rightarrow> bool \<Rightarrow> bool \<Rightarrow> bool \<Rightarrow> verdict option" where
  "first_match g h a l =
     map_option fst (find (\<lambda>row. snd row g h a l) priority_table)"



text \<open>Some rule of the list carries a tag that starts with \<open>p\<close>.\<close>

definition starts_with :: "string \<Rightarrow> rule \<Rightarrow> bool" where
  "starts_with p r = (case tag r of None \<Rightarrow> False | Some tg \<Rightarrow> prefix p tg)"

definition tagged :: "string \<Rightarrow> tweetActivity \<Rightarrow> bool" where
  "tagged p t = list_ex (starts_with p) (matching_rules (gnip t))"

section \<open>Reading a trace\<close>

text \<open>The events a statement adds to the trace of the world it runs in.\<close>

definition emitted :: "action \<Rightarrow> world \<Rightarrow> event list" where
  "emitted a w = drop (length (trace w)) (trace (snd (a w)))"

text \<open>
  \<^verbatim>\<open>dbQuery\<close> logs the statement it is given as it is entered: the statements issued are
  read from these lines. The statements sent are those passed to \<^verbatim>\<open>client.query\<close>.
\<close>

fun issued_query :: "event \<Rightarrow> query option" where
  "issued_query (LogJSON lvl a (JQuery q) b) =
     (if lvl = Debug \<and> a = ''dbQuery: executing query: '' \<and> b = [] then Some q else None)"
| "issued_query e = None"

definition issued :: "event list \<Rightarrow> query list" where
  "issued es = List.map_filter issued_query es"

fun sent_query :: "event \<Rightarrow> query option" where
  "sent_query (PgQuery q) = Some q"
| "sent_query e = None"

fun is_InsertTweet :: "query \<Rightarrow> bool" where
  "is_InsertTweet (InsertTweet tbl vs) = True"
| "is_InsertTweet q = False"

fun is_UpsertTweetUsers :: "query \<Rightarrow> bool" where
  "is_UpsertTweetUsers (UpsertTweetUsers u) = True"
| "is_UpsertTweetUsers q = False"

fun is_InsertInvitee :: "query \<Rightarrow> bool" where
  "is_InsertInvitee (InsertInvitee tbl u) = True"
| "is_InsertInvitee q = False"

text \<open>An invitee insert, issued to \<^verbatim>\<open>dbQuery\<close> or sent to the database.\<close>

definition invitee_insert :: "event \<Rightarrow> bool" where
  "invitee_insert e =
     ((case issued_query e of None \<Rightarrow> False | Some q \<Rightarrow> is_InsertInvitee q) \<or>
      (case sent_query e of None \<Rightarrow> False | Some q \<Rightarrow> is_InsertInvitee q))"

text \<open>A tweet handed to Twitter, and the two lines logged instead in test mode.\<close>

fun is_send :: "event \<Rightarrow> bool" where
  "is_send (TwitUpdateStatus s) = True"
| "is_send e = False"

definition test_mode_line :: string where
  "test_mode_line =
     ''sendReplyTweet is in test mode - no message will be sent. Callback will still run.''"

definition is_test_mode_log :: "event \<Rightarrow> bool" where
  "is_test_mode_log e = (e = Log Info test_mode_line)"

text \<open>
  A notification dispatch that succeeded: Twitter's callback without an error or, with
  sending disabled, the test-mode line.
\<close>

definition dispatch_ok :: "event \<Rightarrow> bool" where
  "dispatch_ok e = (e = TwitReplied None \<or> is_test_mode_log e)"

text \<open>
  \<open>dispatch_first seen es\<close>: reading \<open>es\<close> from the left, a dispatch that succeeded comes
  before every invitee insert; \<open>seen\<close> tells whether such a dispatch precedes \<open>es\<close>.
\<close>

fun dispatch_first :: "bool \<Rightarrow> event list \<Rightarrow> bool" where
  "dispatch_first seen [] = True"
| "dispatch_first seen (e # es) =
     (if invitee_insert e then seen \<and> dispatch_first seen es
      else dispatch_first (seen \<or> dispatch_ok e) es)"

section \<open>Reading the connection\<close>

text \<open>The connection after the handlers ran for a list of signals.\<close>

definition after :: "config \<Rightarrow> env \<Rightarrow> signal list \<Rightarrow> conn \<Rightarrow> conn" where
  "after cfg env ss c = snd (run cfg env ss c)"

text \<open>The three disconnect triggers: idle timeout, \<^verbatim>\<open>error\<close> and \<^verbatim>\<open>end\<close>.\<close>

fun is_trigger :: "signal \<Rightarrow> bool" where
  "is_trigger SocketTimeout = True"
| "is_trigger (StreamError err) = True"
| "is_trigger StreamEnd = True"
| "is_trigger s = False"


text \<open>The events a list of signals adds to the trace.\<close>

definition emitted_conn :: "config \<Rightarrow> env \<Rightarrow> signal list \<Rightarrow> conn \<Rightarrow> event list" where
  "emitted_conn cfg env ss c =
     drop (length (trace (world_of c))) (trace (world_of (after cfg env ss c)))"

section \<open>Notions used in the proofs\<close>

text \<open>A statement only adds events to the trace, and each event it adds satisfies \<open>P\<close>.\<close>

definition adds_only :: "(event \<Rightarrow> bool) \<Rightarrow> action \<Rightarrow> bool" where
  "adds_only P a = (\<forall>w. \<exists>new. trace (snd (a w)) = trace w @ new \<and> list_all P new)"

text \<open>The events \<^verbatim>\<open>dbQuery\<close> itself adds for a statement \<open>q\<close>.\<close>

fun db_event :: "query \<Rightarrow> event \<Rightarrow> bool" where
  "db_event q (LogJSON lvl a j b) = (j = JQuery q)"
| "db_event q (PgConnect cs) = True"
| "db_event q (PgConnected err) = True"
| "db_event q (PgQuery q') = (q' = q)"
| "db_event q (PgResult err) = True"
| "db_event q PgDone = True"
| "db_event q (Log lvl m) = (lvl = Error)"
| "db_event q e = False"

text \<open>The \<^verbatim>\<open>catch\<close> clause of \<^verbatim>\<open>dbQuery\<close>.\<close>

definition callback_error :: "env \<Rightarrow> exn \<Rightarrow> action" where
  "callback_error env error =
     logger Error (''dbQuery: Error in success callback: '' @ message env error @
                   '', '' @ stack env error)"

text \<open>The world in which the success callback of \<^verbatim>\<open>dbQuery\<close> runs.\<close>

definition answered :: "config \<Rightarrow> env \<Rightarrow> query \<Rightarrow> world \<Rightarrow> world" where
  "answered cfg env q w =
     w\<lparr>connects := Suc (connects w), queries := Suc (queries w),
       all_users := pg_write env q (all_users w),
       trace := trace w @
         [LogJSON Debug ''dbQuery: executing query: '' (JQuery q) [],
          PgConnect (conString cfg), PgConnected None,
          PgQuery q, PgResult None, PgDone,
          LogJSON Debug ''dbQuery: success: '' (JQuery q) []]\<rparr>"

text \<open>One of the five lines with which a branch of \<^verbatim>\<open>filter\<close> starts.\<close>

definition is_branch_log :: "tweetActivity \<Rightarrow> event \<Rightarrow> bool" where
  "is_branch_log t e =
     (e \<in> set (map (branch_log t) [Confirmed, AskForGeo, Unconfirmed, Invite, Unmatched]))"

text \<open>
  The events the body of a branch of \<^verbatim>\<open>filter\<close> can add, for the branch of verdict \<open>v\<close>:
  an invitee insert only in the two branches that invite, a tweet only when sending is
  enabled, the test-mode line only when it is disabled.
\<close>

fun body_event :: "config \<Rightarrow> verdict \<Rightarrow> event \<Rightarrow> bool" where
  "body_event cfg v (Log lvl m) =
     (lvl = Debug \<or> lvl = Error \<or>
      (lvl = Info \<and> (m = test_mode_line \<longrightarrow> \<not> send_enabled cfg)) \<or>
      (lvl = Warn \<and> prefix ''getMessage: '' m))"
| "body_event cfg v (LogJSON lvl a j b) =
     (case j of JQuery q \<Rightarrow> is_InsertInvitee q \<longrightarrow> v = Unconfirmed \<or> v = Invite | _ \<Rightarrow> False)"
| "body_event cfg v (PgQuery q) = (is_InsertInvitee q \<longrightarrow> v = Unconfirmed \<or> v = Invite)"
| "body_event cfg v (PgConnect cs) = True"
| "body_event cfg v (PgConnected err) = True"
| "body_event cfg v (PgResult err) = True"
| "body_event cfg v PgDone = True"
| "body_event cfg v (TwitUpdateStatus s) = send_enabled cfg"
| "body_event cfg v (TwitReplied err) = send_enabled cfg"
| "body_event cfg v e = False"

text \<open>The world in which the body of the branch runs: \<^verbatim>\<open>filter\<close> has logged its three lines.\<close>

definition entered :: "tweetActivity \<Rightarrow> world \<Rightarrow> world" where
  "entered t w =
     w\<lparr>trace := trace w @
        [Log Verbose (received_line t),
         Log Verbose (''filter: Categorized tweetActivity via Gnip tags as '' @
                      tweetCategorizations t),
         branch_log t (verdict_of t)]\<rparr>"

text \<open>What \<^verbatim>\<open>getMessage\<close> returns for a code and a language, \<open>None\<close> for \<^verbatim>\<open>null\<close>.\<close>

definition resolve :: "config \<Rightarrow> string \<Rightarrow> string \<Rightarrow> jsvalue option" where
  "resolve cfg code lang =
     (case twitter_get cfg code of
        None \<Rightarrow> None
      | Some x \<Rightarrow>
          (case member_get x lang of
             Some v \<Rightarrow> Some v
           | None \<Rightarrow> member_get x (defaultLanguage cfg)))"

text \<open>The warning \<^verbatim>\<open>getMessage\<close> logs when it resolves nothing.\<close>

definition unresolved_line :: "string \<Rightarrow> string \<Rightarrow> string" where
  "unresolved_line code lang =
     ''getMessage: Code could not be resolved for '' @ [CHR 0x27] @ code @
     [CHR 0x27] @ '' and lang '' @ [CHR 0x27] @ lang @ [CHR 0x27]"

text \<open>The world \<^verbatim>\<open>ifNewUser\<close> leaves when the query found the user.\<close>

definition known_world :: "config \<Rightarrow> env \<Rightarrow> string \<Rightarrow> world \<Rightarrow> world" where
  "known_world cfg env u w =
     (answered cfg env (SelectUserHash (table_all_users cfg) u) w)
       \<lparr>trace := trace (answered cfg env (SelectUserHash (table_all_users cfg) u) w) @
          [Log Debug ''Not performing callback as user already exists'']\<rparr>"

text \<open>
  The callback of \<^verbatim>\<open>sendReplyTweet\<close> with \<^verbatim>\<open>insertInvitee\<close> as its continuation, run
  inside the \<^verbatim>\<open>try\<close> of \<^verbatim>\<open>dbQuery\<close>.
\<close>

definition dispatched :: "config \<Rightarrow> env \<Rightarrow> string \<Rightarrow> jsvalue option \<Rightarrow> tweetActivity \<Rightarrow> action" where
  "dispatched cfg env u m t =
     try_catch (dispatch cfg env u m (Some (insertInvitee cfg env t))) (callback_error env)"

text \<open>
  The ordering asked of a statement: it only adds events, in what it adds a
  dispatch that succeeded comes before every invitee insert, and it adds no invitee
  insert at all when Twitter refuses the next tweet.
\<close>

definition guarded :: "env \<Rightarrow> config \<Rightarrow> action \<Rightarrow> bool" where
  "guarded env cfg a =
     (\<forall>w. \<exists>new. trace (snd (a w)) = trace w @ new \<and> dispatch_first False new \<and>
        (send_enabled cfg \<and> tweet_err env (updates w) \<noteq> None \<longrightarrow>
           list_all (\<lambda>e. \<not> invitee_insert e) new))"

text \<open>
  At most one timer is pending, and it is the one \<open>reconnectTimeoutHandle\<close> names.
\<close>

definition one_timer :: "conn \<Rightarrow> bool" where
  "one_timer c =
     (length (timers c) \<le> 1 \<and>
      list_all (\<lambda>p. reconnectTimeoutHandle c = Some (fst p)) (timers c))"

text \<open>
  The numbers \<open>streamReconnectTimeout\<close> takes: a power of two below \<open>2 ^ 1024\<close>, which a
  double holds exactly, or \<^verbatim>\<open>Infinity\<close>.
\<close>

definition power_of_two :: "number \<Rightarrow> bool" where
  "power_of_two x = (x = Infinity \<or> (\<exists>k<1024. x = Finite (2 ^ k)))"

text \<open>A call of \<^verbatim>\<open>setTimeout\<close> or \<^verbatim>\<open>clearTimeout\<close>.\<close>

fun is_timer_call :: "event \<Rightarrow> bool" where
  "is_timer_call (SetTimeout h ms) = True"
| "is_timer_call (ClearTimeout h) = True"
| "is_timer_call e = False"

text \<open>The line the \<^verbatim>\<open>tweet\<close> handler logs when \<^verbatim>\<open>filter\<close> throws.\<close>

definition handler_line :: "env \<Rightarrow> exn \<Rightarrow> string" where
  "handler_line env err =
     ''connectStream: stream.on('tweet'): Error on handler:'' @ message env err @
     '', '' @ stack env err"

text \<open>The world in which the \<^verbatim>\<open>tweet\<close> handler calls \<^verbatim>\<open>filter\<close>: it has logged the tweet.\<close>

definition received :: "tweetActivity \<Rightarrow> world \<Rightarrow> world" where
  "received t w =
     w\<lparr>trace := trace w @
        [LogJSON Debug ''connectStream: stream.on('tweet'): tweet = '' (JTweet t) []]\<rparr>"

section \<open>Examples\<close>

text \<open>
  A configuration, an environment in which no call fails, an empty world, and tweets
  for the scenarios of the specification: the tags and the coordinates are given, the
  author is \<^verbatim>\<open>alice\<close>. In the configuration \<^verbatim>\<open>config.twitter\<close> has one table of texts,
  \<^verbatim>\<open>invite_text\<close>; of its other members the inherited ones are given, each with the
  properties it inherits in turn (the prototype of \<^verbatim>\<open>Object.prototype\<close> is \<^verbatim>\<open>null\<close>).
\<close>

definition inherited_only :: "string \<Rightarrow> (string \<Rightarrow> bool) option" where
  "inherited_only code =
     (if code \<in> set object_members
      then Some (\<lambda>lang. lang \<in> set object_members \<and>
                         \<not> (code = ''__proto__'' \<and> lang = ''__proto__''))
      else None)"

definition example_config :: config where
  "example_config =
     \<lparr>conString = ''postgres://localhost/cognicity'',
      table_all_users = ''tweet_all_users'',
      table_tweets = ''tweet_reports'',
      table_invitees = ''tweet_invitees'',
      table_unconfirmed = ''tweet_reports_unconfirmed'',
      table_nonspatial_tweet_reports = ''nonspatial_tweet_reports'',
      table_nonspatial_users = ''nonspatial_tweet_users'',
      send_enabled = True,
      defaultLanguage = ''en'',
      messages = [''invite_text'' \<mapsto> [''en'' \<mapsto> ''Hi'', ''id'' \<mapsto> '''']],
      foreign = inherited_only,
      steamUrl = Some ''https://stream.gnip.com'',
      rulesUrl = ''https://api.gnip.com/rules.json'',
      username = ''user'',
      password = ''secret'',
      streamTimeout = 60000,
      rules = [(''geo-boundingbox'', ''contains:flood bounding_box:[80 12 81 13]''),
               (''addressed-x'', ''contains:flood @riskmapindia'')]\<rparr>"

definition healthy :: env where
  "healthy =
     \<lparr>md5 = (\<lambda>s. ''md5:'' @ s),
      after_write = (\<lambda>q hashes. hashes),
      connect_err = (\<lambda>n. None),
      query_err = (\<lambda>n. None),
      tweet_err = (\<lambda>n. None),
      toLocaleString = (\<lambda>s. s),
      number_text = (\<lambda>n. case n of Finite k \<Rightarrow> replicate k CHR ''|'' | Infinity \<Rightarrow> ''Infinity''),
      value_text = (\<lambda>v. ''[object]''),
      message = (\<lambda>e. case e of TypeError s \<Rightarrow> s | Rethrown s \<Rightarrow> s
                       | InvalidEndpoint \<Rightarrow> ''Invalid end point''),
      stack = (\<lambda>e. ''at filter'')\<rparr>"

definition fresh :: world where
  "fresh = \<lparr>trace = [], all_users = [], connects = 0, queries = 0, updates = 0\<rparr>"

definition example_tweet :: "string list \<Rightarrow> geo_t option \<Rightarrow> tweetActivity" where
  "example_tweet tags g =
     \<lparr>actor = \<lparr>preferredUsername = ''alice''\<rparr>,
      body = ''flood here'',
      postedTime = ''2015-12-01T10:00:00.000Z'',
      twitter_lang = ''id'',
      twitter_entities = \<lparr>hashtags = ''[]'', urls = ''[]'', user_mentions = ''[]''\<rparr>,
      geo = g,
      gnip = \<lparr>matching_rules = map (\<lambda>s. \<lparr>tag = Some s\<rparr>) tags\<rparr>\<rparr>"

definition here :: "geo_t option" where
  "here = Some \<lparr>coordinates = Some [''13.05'', ''80.25'']\<rparr>"

text \<open>A world in which the author of the example tweets is already known.\<close>

definition known_alice :: world where
  "known_alice = fresh\<lparr>all_users := [''md5:alice'']\<rparr>"

text \<open>Environments in which Twitter refuses every tweet, and in which no connection opens.\<close>

definition twitter_down :: env where
  "twitter_down = healthy\<lparr>tweet_err := (\<lambda>n. Some ''503'')\<rparr>"

definition db_down :: env where
  "db_down = healthy\<lparr>connect_err := (\<lambda>n. Some ''ECONNREFUSED'')\<rparr>"

text \<open>
  The configuration with the stream url as \<^verbatim>\<open>powertrack-config.js\<close> gives it: the file
  sets \<^verbatim>\<open>config.gnip.streamUrl\<close>, and \<^verbatim>\<open>config.gnip.steamUrl\<close>, which \<^verbatim>\<open>connectStream\<close>
  reads, is not set.
\<close>

definition as_shipped :: config where
  "as_shipped = example_config\<lparr>steamUrl := None\<rparr>"

section \<open>The tag prefixes\<close>

lemma indexOf_from_range: "indexOf_from i n s = - 1 \<or> int i \<le> indexOf_from i n s"
  by (induction s arbitrary: i) (auto, force)

lemma indexOf_is_0: "indexOf s n = 0 \<longleftrightarrow> prefix n s"
proof (cases s)
  case Nil
  then show ?thesis by (simp add: indexOf_def)
next
  case (Cons c s')
  have "indexOf_from (Suc 0) n s' \<noteq> 0"
    using indexOf_from_range [of "Suc 0" n s'] by auto
  with Cons show ?thesis by (simp add: indexOf_def)
qed

lemma visit_rule_flags:
  "geoInBoundingBox (visit_rule f r) = (geoInBoundingBox f \<or> starts_with ''geo'' r)"
  "addressed (visit_rule f r) = (addressed f \<or> starts_with ''addressed'' r)"
  "locationMatch (visit_rule f r) = (locationMatch f \<or> starts_with ''location'' r)"
  by (auto simp: visit_rule_def starts_with_def indexOf_is_0 Let_def split: option.splits)

lemma foldl_visit_rule:
  "geoInBoundingBox (foldl visit_rule f rs) =
     (geoInBoundingBox f \<or> list_ex (starts_with ''geo'') rs) \<and>
   addressed (foldl visit_rule f rs) =
     (addressed f \<or> list_ex (starts_with ''addressed'') rs) \<and>
   locationMatch (foldl visit_rule f rs) =
     (locationMatch f \<or> list_ex (starts_with ''location'') rs)"
  by (induction rs arbitrary: f) (simp_all add: visit_rule_flags)

lemma categorize_tagged:
  "geoInBoundingBox (categorize t) = tagged ''geo'' t"
  "addressed (categorize t) = tagged ''addressed'' t"
  "locationMatch (categorize t) = tagged ''location'' t"
  by (simp_all add: categorize_def tagged_def foldl_visit_rule)

lemma first_match_classify: "first_match g h a l = Some (classify g h a l)"
  by (cases g; cases h; cases a; cases l)
     (simp_all add: first_match_def priority_table_def classify_def)

section \<open>What \<^verbatim>\<open>dbQuery\<close> does in each of its three outcomes\<close>

lemmas examples = example_config_def healthy_def fresh_def example_tweet_def here_def
  known_alice_def twitter_down_def db_down_def as_shipped_def

lemmas prims = pg_connect_def client_query_def logger_json_def logger_def emit_def
  pg_done_def twit_updateStatus_def try_catch_def skip_def Let_def

lemma dbQuery_connect_err:
  "connect_err env (connects w) = Some e \<Longrightarrow>
   dbQuery cfg env q s w =
     (None, w\<lparr>connects := Suc (connects w),
              trace := trace w @
                [LogJSON Debug ''dbQuery: executing query: '' (JQuery q) [],
                 PgConnect (conString cfg), PgConnected (Some e),
                 LogJSON Error ''dbQuery: '' (JQuery q) ('', '' @ e), PgDone]\<rparr>)"
  by (simp add: dbQuery_def prims)

lemma dbQuery_query_err:
  "connect_err env (connects w) = None \<Longrightarrow> query_err env (queries w) = Some e \<Longrightarrow>
   dbQuery cfg env q s w =
     (None, w\<lparr>connects := Suc (connects w), queries := Suc (queries w),
              trace := trace w @
                [LogJSON Debug ''dbQuery: executing query: '' (JQuery q) [],
                 PgConnect (conString cfg), PgConnected None,
                 PgQuery q, PgResult (Some e),
                 LogJSON Error ''dbQuery: '' (JQuery q) ('', '' @ e), PgDone]\<rparr>)"
  by (simp add: dbQuery_def prims)

lemma dbQuery_ok:
  "connect_err env (connects w) = None \<Longrightarrow> query_err env (queries w) = None \<Longrightarrow>
   dbQuery cfg env q s w =
     (case s of
        None \<Rightarrow> skip
      | Some f \<Rightarrow> try_catch (f \<lparr>rows = pg_rows env q (all_users w)\<rparr>) (callback_error env))
     (answered cfg env q w)"
  by (simp add: dbQuery_def prims callback_error_def answered_def
      split: option.splits prod.splits)

section \<open>Statements that only add events\<close>

lemma adds_onlyI:
  "(\<And>w. \<exists>new. trace (snd (a w)) = trace w @ new \<and> list_all P new) \<Longrightarrow> adds_only P a"
  by (simp add: adds_only_def)

lemma adds_onlyD:
  "adds_only P a \<Longrightarrow> \<exists>new. trace (snd (a w)) = trace w @ new \<and> list_all P new"
  by (simp add: adds_only_def)

lemma adds_only_emitted:
  "adds_only P a \<Longrightarrow> trace (snd (a w)) = trace w @ emitted a w \<and> list_all P (emitted a w)"
  using adds_onlyD [of P a w] by (auto simp: emitted_def)

lemma adds_only_mono: "adds_only P a \<Longrightarrow> (\<And>e. P e \<Longrightarrow> Q e) \<Longrightarrow> adds_only Q a"
  unfolding adds_only_def list_all_iff by meson

lemma adds_only_emit: "P e \<Longrightarrow> adds_only P (emit e)"
  by (simp add: adds_only_def emit_def)

lemma adds_only_logger: "P (Log lvl m) \<Longrightarrow> adds_only P (logger lvl m)"
  by (simp add: logger_def adds_only_emit)

lemma adds_only_skip: "adds_only P skip"
  by (simp add: adds_only_def skip_def)

lemma adds_only_throw: "adds_only P (throw e)"
  by (simp add: adds_only_def throw_def)

lemma adds_only_if:
  "(c \<Longrightarrow> adds_only P a) \<Longrightarrow> (\<not> c \<Longrightarrow> adds_only P b) \<Longrightarrow> adds_only P (if c then a else b)"
  by simp

lemma adds_only_seq:
  assumes "adds_only P a" and "\<And>x. adds_only P (b x)"
  shows "\<exists>new. trace (snd (b (fst (a w)) (snd (a w)))) = trace w @ new \<and> list_all P new"
proof -
  obtain n1 where 1: "trace (snd (a w)) = trace w @ n1" "list_all P n1"
    using adds_onlyD [OF assms(1)] by blast
  obtain n2 where 2:
    "trace (snd (b (fst (a w)) (snd (a w)))) = trace (snd (a w)) @ n2" "list_all P n2"
    using adds_onlyD [OF assms(2)] by blast
  show ?thesis using 1 2 by auto
qed

lemma adds_only_block: "list_all (adds_only P) as \<Longrightarrow> adds_only P (block as)"
proof (induction as)
  case Nil
  show ?case by (rule adds_onlyI) simp
next
  case (Cons a as)
  then have a: "adds_only P a" and as: "adds_only P (block as)" by simp_all
  show ?case
  proof (rule adds_onlyI)
    fix w
    have "\<exists>new. trace (snd ((\<lambda>x. case x of None \<Rightarrow> block as | Some e \<Rightarrow> throw e)
                               (fst (a w)) (snd (a w)))) = trace w @ new \<and> list_all P new"
      by (rule adds_only_seq [OF a]) (auto simp: as adds_only_throw split: option.splits)
    then show "\<exists>new. trace (snd (block (a # as) w)) = trace w @ new \<and> list_all P new"
      by (cases "a w") (auto simp: throw_def split: option.splits)
  qed
qed

lemma adds_only_try_catch:
  assumes "adds_only P a" and "\<And>e. adds_only P (h e)"
  shows "adds_only P (try_catch a h)"
proof (rule adds_onlyI)
  fix w
  have "\<exists>new. trace (snd ((\<lambda>x. case x of None \<Rightarrow> skip | Some e \<Rightarrow> h e)
                             (fst (a w)) (snd (a w)))) = trace w @ new \<and> list_all P new"
    by (rule adds_only_seq [OF assms(1)])
       (auto simp: assms(2) adds_only_skip split: option.splits)
  then show "\<exists>new. trace (snd (try_catch a h w)) = trace w @ new \<and> list_all P new"
    by (cases "a w") (auto simp: try_catch_def skip_def split: option.splits)
qed

lemma adds_only_dbQuery:
  assumes P: "\<And>e. db_event q e \<Longrightarrow> P e"
    and s: "\<And>f r. s = Some f \<Longrightarrow> adds_only P (f r)"
  shows "adds_only P (dbQuery cfg env q s)"
proof (rule adds_onlyI)
  fix w
  show "\<exists>new. trace (snd (dbQuery cfg env q s w)) = trace w @ new \<and> list_all P new"
  proof (cases "connect_err env (connects w)")
    case (Some e)
    then show ?thesis by (simp add: dbQuery_connect_err P)
  next
    case None
    show ?thesis
    proof (cases "query_err env (queries w)")
      case (Some e)
      with None show ?thesis by (simp add: dbQuery_query_err P)
    next
      case qn: None
      let ?w1 = "answered cfg env q w"
      have w1: "trace ?w1 = trace w @
         [LogJSON Debug ''dbQuery: executing query: '' (JQuery q) [],
          PgConnect (conString cfg), PgConnected None,
          PgQuery q, PgResult None, PgDone,
          LogJSON Debug ''dbQuery: success: '' (JQuery q) []]"
        by (simp add: answered_def)
      have h: "\<And>e. adds_only P (callback_error env e)"
        by (simp add: callback_error_def adds_only_logger P)
      have cont: "adds_only P (case s of None \<Rightarrow> skip
          | Some f \<Rightarrow> try_catch (f \<lparr>rows = pg_rows env q (all_users w)\<rparr>) (callback_error env))"
      proof (cases s)
        case None
        then show ?thesis by (simp add: adds_only_skip)
      next
        case (Some f)
        show ?thesis
          unfolding Some option.case
          by (rule adds_only_try_catch [OF s [OF Some] h])
      qed
      obtain n2 where "trace (snd ((case s of None \<Rightarrow> skip
          | Some f \<Rightarrow> try_catch (f \<lparr>rows = pg_rows env q (all_users w)\<rparr>) (callback_error env)) ?w1))
          = trace ?w1 @ n2" "list_all P n2"
        using adds_onlyD [OF cont] by blast
      then show ?thesis
        using None qn by (simp add: dbQuery_ok w1 P)
    qed
  qed
qed

section \<open>The events of \<^verbatim>\<open>filter\<close>\<close>

lemma db_event_body:
  "is_InsertInvitee q \<longrightarrow> v = Unconfirmed \<or> v = Invite \<Longrightarrow> db_event q e \<Longrightarrow> body_event cfg v e"
  by (cases e) auto

lemma adds_only_ifNewUser:
  assumes "\<And>e. db_event (SelectUserHash (table_all_users cfg) u) e \<Longrightarrow> P e"
    and "P (Log Debug ''Not performing callback as user already exists'')"
    and "\<And>r. adds_only P (k r)"
  shows "adds_only P (ifNewUser cfg env u k)"
  unfolding ifNewUser_def
  by (rule adds_only_dbQuery) (auto simp: assms(2,3) adds_only_logger intro: assms(1))

lemma adds_only_update:
  assumes "P (TwitUpdateStatus s)" and "\<And>x. P (TwitReplied x)"
    and "\<And>err. adds_only P (onerr err)" and "adds_only P onok"
  shows "adds_only P (\<lambda>w. case twit_updateStatus env s w of
                             (Some err, w1) \<Rightarrow> onerr err w1
                           | (None, w1) \<Rightarrow> onok w1)"
proof (rule adds_onlyI)
  fix w :: world
  let ?w1 = "w\<lparr>updates := Suc (updates w),
                trace := trace w @ [TwitUpdateStatus s, TwitReplied (tweet_err env (updates w))]\<rparr>"
  show "\<exists>new. trace (snd (case twit_updateStatus env s w of
                             (Some err, w1) \<Rightarrow> onerr err w1
                           | (None, w1) \<Rightarrow> onok w1)) = trace w @ new \<and> list_all P new"
  proof (cases "tweet_err env (updates w)")
    case None
    obtain n where "trace (snd (onok ?w1)) = trace ?w1 @ n" "list_all P n"
      using adds_onlyD [OF assms(4)] by blast
    with None show ?thesis by (simp add: twit_updateStatus_def Let_def assms)
  next
    case (Some err)
    obtain n where "trace (snd (onerr err ?w1)) = trace ?w1 @ n" "list_all P n"
      using adds_onlyD [OF assms(3)] by blast
    with Some show ?thesis by (simp add: twit_updateStatus_def Let_def assms)
  qed
qed

lemma adds_only_sendReplyTweet:
  assumes db: "\<And>e. db_event (SelectUserHash (table_all_users cfg) u) e \<Longrightarrow> P e"
    and known: "P (Log Debug ''Not performing callback as user already exists'')"
    and send: "send_enabled cfg \<Longrightarrow>
                 P (TwitUpdateStatus (''@'' @ u @ '' '' @ js_string env m)) \<and> (\<forall>x. P (TwitReplied x))"
    and test: "\<not> send_enabled cfg \<Longrightarrow>
                 P (Log Info test_mode_line) \<and> P (Log Info (''@'' @ u @ '' '' @ js_string env m))"
    and cb: "\<And>cb. callback = Some cb \<Longrightarrow> adds_only P cb"
  shows "adds_only P (sendReplyTweet cfg env u m callback)"
proof -
  have err: "\<And>x. P (Log Error x)" by (rule db) simp
  have k: "adds_only P (case callback of None \<Rightarrow> skip | Some cb \<Rightarrow> cb)"
    by (cases callback) (simp_all add: adds_only_skip cb)
  have k': "adds_only P (\<lambda>w. case callback of None \<Rightarrow> skip w | Some cb \<Rightarrow> cb w)"
    using k by (cases callback) (simp_all add: skip_def [abs_def])
  show ?thesis
    unfolding sendReplyTweet_def dispatch_def
  proof (rule adds_only_ifNewUser, erule db, rule known, rule adds_only_if)
    assume on: "send_enabled cfg"
    show "adds_only P (\<lambda>w. case twit_updateStatus env (''@'' @ u @ '' '' @ js_string env m) w of
                   (Some err, w1) \<Rightarrow> logger Error (''Tweeting failed: '' @ err) w1
                 | (None, w1) \<Rightarrow> (case callback of None \<Rightarrow> skip w1 | Some cb \<Rightarrow> cb w1))"
      by (rule adds_only_update) (use send [OF on] k' in \<open>auto intro: adds_only_logger err\<close>)
  next
    assume off: "\<not> send_enabled cfg"
    show "adds_only P (block
              [logger Info
                 ''sendReplyTweet is in test mode - no message will be sent. Callback will still run.'',
               logger Info (''@'' @ u @ '' '' @ js_string env m),
               (case callback of None \<Rightarrow> skip | Some cb \<Rightarrow> cb)])"
      using test [OF off] k
      by (intro adds_only_block) (simp add: adds_only_logger test_mode_line_def)
  qed
qed


lemma block_last: "block [a] w = a w"
  by (simp split: prod.splits option.splits)

lemma filter_tweet_entered:
  "filter_tweet cfg env t w = branch_body cfg env t (verdict_of t) (entered t w)"
  by (simp add: filter_tweet_def entered_def logger_def emit_def block_last
      split: prod.splits option.splits)

lemma adds_only_insertInvitee:
  assumes "\<And>e. db_event (InsertInvitee (table_invitees cfg) (preferredUsername (actor t))) e \<Longrightarrow> P e"
    and "P (Log Info ''Logged new invitee'')"
  shows "adds_only P (insertInvitee cfg env t)"
  unfolding insertInvitee_def
  by (rule adds_only_dbQuery) (auto simp: assms(2) adds_only_logger intro: assms(1))

lemma adds_only_dbQuery_plain:
  assumes "\<And>q e. \<not> is_InsertInvitee q \<Longrightarrow> db_event q e \<Longrightarrow> P e"
    and "\<not> is_InsertInvitee q"
    and "\<And>f r. s = Some f \<Longrightarrow> adds_only P (f r)"
  shows "adds_only P (dbQuery cfg env q s)"
proof (rule adds_only_dbQuery)
  fix e
  assume "db_event q e"
  then show "P e" by (rule assms(1) [OF assms(2)])
qed (simp add: assms(3))

lemma adds_only_ifNewUser_plain:
  assumes "\<And>q e. \<not> is_InsertInvitee q \<Longrightarrow> db_event q e \<Longrightarrow> P e"
    and "\<And>m. P (Log Debug m)"
    and "\<And>r. adds_only P (k r)"
  shows "adds_only P (ifNewUser cfg env u k)"
proof (rule adds_only_ifNewUser)
  fix e
  assume "db_event (SelectUserHash (table_all_users cfg) u) e"
  then show "P e" by (rule assms(1) [rotated]) simp
qed (simp_all add: assms(2,3))

lemma adds_only_insertUnConfirmed:
  assumes "\<And>q e. \<not> is_InsertInvitee q \<Longrightarrow> db_event q e \<Longrightarrow> P e"
    and "\<And>m. m \<noteq> test_mode_line \<Longrightarrow> P (Log Info m)"
  shows "adds_only P (insertUnConfirmed cfg env t)"
  unfolding insertUnConfirmed_def
  by (cases "geo_point t")
     (auto simp: assms(2) test_mode_line_def adds_only_logger adds_only_throw
           intro!: adds_only_dbQuery_plain [OF assms(1)])

lemma adds_only_insertConfirmed:
  assumes "\<And>q e. \<not> is_InsertInvitee q \<Longrightarrow> db_event q e \<Longrightarrow> P e"
    and "\<And>m. m \<noteq> test_mode_line \<Longrightarrow> P (Log Info m)"
  shows "adds_only P (insertConfirmed cfg env t)"
  unfolding insertConfirmed_def
  by (cases "geo_point t")
     (auto simp: assms(2) test_mode_line_def adds_only_logger adds_only_throw
           intro!: adds_only_dbQuery_plain [OF assms(1)] adds_only_block)

lemma adds_only_insertNonSpatial:
  assumes "\<And>q e. \<not> is_InsertInvitee q \<Longrightarrow> db_event q e \<Longrightarrow> P e"
    and "\<And>m. m \<noteq> test_mode_line \<Longrightarrow> P (Log Info m)" and "\<And>m. P (Log Debug m)"
  shows "adds_only P (insertNonSpatial cfg env t)"
  unfolding insertNonSpatial_def
  by (auto simp: assms(2,3) test_mode_line_def adds_only_logger
           intro!: adds_only_dbQuery_plain [OF assms(1)] adds_only_block
                   adds_only_ifNewUser_plain [OF assms(1)])

lemma adds_only_reply:
  assumes "\<And>m. prefix ''getMessage: '' m \<Longrightarrow> P (Log Warn m)"
    and "\<And>m. adds_only P (sendReplyTweet cfg env (preferredUsername (actor t)) m cb)"
  shows "adds_only P (reply cfg env t code cb)"
proof (rule adds_onlyI)
  fix w
  obtain m w1 where g: "getMessage cfg code (twitter_lang t) w = (m, w1)"
    by (cases "getMessage cfg code (twitter_lang t) w")
  then have "\<exists>n1. trace w1 = trace w @ n1 \<and> list_all P n1"
    by (auto simp: getMessage_def Let_def logger_def emit_def assms(1) split: option.splits)
  then obtain n1 where 1: "trace w1 = trace w @ n1" "list_all P n1" by blast
  obtain n2 where 2:
    "trace (snd (sendReplyTweet cfg env (preferredUsername (actor t)) m cb w1)) = trace w1 @ n2"
    "list_all P n2"
    using adds_onlyD [OF assms(2)] by blast
  show "\<exists>new. trace (snd (reply cfg env t code cb w)) = trace w @ new \<and> list_all P new"
    using g 1 2 by (simp add: reply_def)
qed

lemma adds_only_branch_body: "adds_only (body_event cfg v) (branch_body cfg env t v)"
proof -
  let ?P = "body_event cfg v"
  have db: "\<And>q e. \<not> is_InsertInvitee q \<Longrightarrow> db_event q e \<Longrightarrow> ?P e"
    by (rule db_event_body) simp_all
  have info: "\<And>m. m \<noteq> test_mode_line \<Longrightarrow> ?P (Log Info m)" by simp
  have debug: "\<And>m. ?P (Log Debug m)" by simp
  have r: "\<And>code cb. (\<And>c. cb = Some c \<Longrightarrow> adds_only ?P c) \<Longrightarrow>
             adds_only ?P (reply cfg env t code cb)"
  proof -
    fix code cb
    assume cb: "\<And>c. cb = Some c \<Longrightarrow> adds_only ?P c"
    have "adds_only ?P (sendReplyTweet cfg env (preferredUsername (actor t)) m cb)" for m
    proof (rule adds_only_sendReplyTweet)
      fix e
      assume "db_event (SelectUserHash (table_all_users cfg) (preferredUsername (actor t))) e"
      then show "?P e" by (rule db [rotated]) simp
    qed (simp_all add: cb test_mode_line_def)
    then show "adds_only ?P (reply cfg env t code cb)"
      by (intro adds_only_reply) simp_all
  qed
  have inv: "v = Unconfirmed \<or> v = Invite \<Longrightarrow> adds_only ?P (insertInvitee cfg env t)"
    by (rule adds_only_insertInvitee) (auto intro: db_event_body simp: test_mode_line_def)
  show ?thesis
  proof (cases v)
    case Confirmed
    show ?thesis
      unfolding Confirmed branch_body.simps
      by (rule adds_only_insertConfirmed) (auto intro: db [unfolded Confirmed] simp: Confirmed)
  next
    case AskForGeo
    have "adds_only ?P (insertNonSpatial cfg env t)"
      by (rule adds_only_insertNonSpatial) (auto intro: db)
    then show ?thesis
      using r [of None "''thanks_text''"] by (simp add: AskForGeo adds_only_block)
  next
    case Unconfirmed
    have "adds_only ?P (insertUnConfirmed cfg env t)"
      by (rule adds_only_insertUnConfirmed) (auto intro: db)
    then show ?thesis
      using r [of "Some (insertInvitee cfg env t)" "''invite_text''"] inv
      by (simp add: Unconfirmed adds_only_block)
  next
    case Invite
    then show ?thesis
      using r [of "Some (insertInvitee cfg env t)" "''invite_text''"] inv by simp
  next
    case Unmatched
    then show ?thesis by (simp add: adds_only_skip)
  qed
qed

lemma body_event_not_branch_log: "body_event cfg v e \<Longrightarrow> \<not> is_branch_log t e"
  by (cases e) (auto simp: is_branch_log_def)

lemma is_branch_log_branch_log: "is_branch_log t (branch_log t v)"
  by (cases v) (simp_all add: is_branch_log_def)

lemma emitted_filter_tweet:
  "emitted (filter_tweet cfg env t) w =
     [Log Verbose (received_line t),
      Log Verbose (''filter: Categorized tweetActivity via Gnip tags as '' @
                   tweetCategorizations t),
      branch_log t (verdict_of t)] @
     emitted (branch_body cfg env t (verdict_of t)) (entered t w)"
proof -
  obtain new where new:
    "trace (snd (branch_body cfg env t (verdict_of t) (entered t w))) =
       trace (entered t w) @ new"
    using adds_onlyD [OF adds_only_branch_body] by blast
  have 1: "emitted (branch_body cfg env t (verdict_of t)) (entered t w) = new"
    by (simp add: emitted_def new)
  have 2: "trace (entered t w) = trace w @
     [Log Verbose (received_line t),
      Log Verbose (''filter: Categorized tweetActivity via Gnip tags as '' @
                   tweetCategorizations t),
      branch_log t (verdict_of t)]"
    by (simp add: entered_def)
  show ?thesis
    unfolding 1 by (simp add: emitted_def filter_tweet_entered new 2)
qed

text \<open>
  C1. Every event gets exactly one of the five verdicts: the verdict is the first row of
  the priority table that holds, read from the top, and every combination of the four
  facts has such a row. The facts are: \<open>geoInBoundingBox\<close> iff some matching-rule tag
  starts with \<^verbatim>\<open>geo\<close>, \<open>addressed\<close> iff some tag starts with \<^verbatim>\<open>addressed\<close>, \<open>locationMatch\<close>
  iff some tag starts with \<^verbatim>\<open>location\<close>, \<open>hasGeo\<close> iff the event carries coordinates. Of the
  five lines that open a branch, \<^verbatim>\<open>filter\<close> logs exactly one, that of the verdict.
\<close>

theorem classifier_first_match_total:
  "geoInBoundingBox (categorize t) = tagged ''geo'' t \<and>
   addressed (categorize t) = tagged ''addressed'' t \<and>
   locationMatch (categorize t) = tagged ''location'' t \<and>
   hasGeo t = (\<exists>g cs. geo t = Some g \<and> coordinates g = Some cs) \<and>
   first_match (tagged ''geo'' t) (hasGeo t) (tagged ''addressed'' t) (tagged ''location'' t) =
     Some (verdict_of t) \<and>
   (\<forall>g h a l. first_match g h a l = Some (classify g h a l)) \<and>
   filter (is_branch_log t) (emitted (filter_tweet cfg env t) w) = [branch_log t (verdict_of t)]"
proof -
  have "list_all (body_event cfg (verdict_of t))
          (emitted (branch_body cfg env t (verdict_of t)) (entered t w))"
    using adds_only_emitted [OF adds_only_branch_body] by blast
  then have "filter (is_branch_log t)
          (emitted (branch_body cfg env t (verdict_of t)) (entered t w)) = []"
    by (auto simp: filter_empty_conv list_all_iff dest: body_event_not_branch_log)
  moreover have "\<not> is_branch_log t (Log Verbose (received_line t))"
    by (simp add: is_branch_log_def received_line_def)
  moreover have "\<not> is_branch_log t (Log Verbose
      (''filter: Categorized tweetActivity via Gnip tags as '' @ tweetCategorizations t))"
    by (simp add: is_branch_log_def)
  ultimately have "filter (is_branch_log t) (emitted (filter_tweet cfg env t) w) =
      [branch_log t (verdict_of t)]"
    by (simp add: emitted_filter_tweet is_branch_log_branch_log)
  moreover have "hasGeo t = (\<exists>g cs. geo t = Some g \<and> coordinates g = Some cs)"
    by (auto simp: hasGeo_def split: option.splits)
  ultimately show ?thesis
    by (simp add: categorize_tagged first_match_classify verdict_of_def)
qed

theorem classifier_first_match_total_witness:
  "verdict_of (example_tweet [''geo-boundingbox'', ''addressed-x''] here) = Confirmed \<and>
   first_match True True True False = Some Confirmed \<and>
   first_match False False False False = Some Unmatched \<and>
   filter (is_branch_log (example_tweet [''geo-boundingbox'', ''addressed-x''] here))
     (emitted (filter_tweet example_config healthy
                 (example_tweet [''geo-boundingbox'', ''addressed-x''] here)) fresh) =
     [Log Verbose ''filter: +BOUNDINGBOX +ADDRESSED = confirmed report'']"
proof -
  let ?t = "example_tweet [''geo-boundingbox'', ''addressed-x''] here"
  have tags: "tagged ''geo'' ?t" "tagged ''addressed'' ?t" "\<not> tagged ''location'' ?t"
    by (simp_all add: tagged_def example_tweet_def starts_with_def)
  have g: "hasGeo ?t" by (simp add: hasGeo_def example_tweet_def here_def)
  have v: "verdict_of ?t = Confirmed"
    by (simp add: verdict_of_def categorize_tagged tags g classify_def)
  show ?thesis
    using classifier_first_match_total [of ?t example_config healthy fresh]
    by (simp add: v tags g classify_def)
qed

section \<open>Verdicts and coordinates\<close>

lemma geo_point_hasGeo: "hasGeo t \<Longrightarrow> \<exists>p. geo_point t = Inr p"
  by (auto simp: hasGeo_def geo_point_def split: option.splits)

lemma geo_point_no_geo: "\<not> hasGeo t \<Longrightarrow> \<exists>x. geo_point t = Inl (TypeError x)"
  by (auto simp: hasGeo_def geo_point_def split: option.splits)

lemma classify_geo_free:
  "(classify g h a l = Confirmed) = (g \<and> a)"
  "(classify g h a l = Unconfirmed) = (g \<and> \<not> a)"
  by (auto simp: classify_def)

text \<open>
  C10. The verdicts Confirmed and Unconfirmed do not depend on the coordinates: of two
  events with the same matching rules, if one is Confirmed or Unconfirmed the other has
  the same verdict, since the two conditions read only \<open>geoInBoundingBox\<close> and
  \<open>addressed\<close>. In particular an event with a \<^verbatim>\<open>geo\<close> tag and an \<^verbatim>\<open>addressed\<close> tag and no
  coordinates is Confirmed, and \<^verbatim>\<open>insertConfirmed\<close> throws a \<^verbatim>\<open>TypeError\<close> on it, before
  anything is handed to \<^verbatim>\<open>dbQuery\<close>.
\<close>

theorem confirmed_unconfirmed_ignore_geo:
  "(gnip t1 = gnip t2 \<and> (verdict_of t1 = Confirmed \<or> verdict_of t1 = Unconfirmed) \<longrightarrow>
      verdict_of t2 = verdict_of t1) \<and>
   (classify g h a l = Confirmed) = (g \<and> a) \<and>
   (classify g h a l = Unconfirmed) = (g \<and> \<not> a) \<and>
   (tagged ''geo'' t \<and> tagged ''addressed'' t \<and> \<not> hasGeo t \<longrightarrow>
      verdict_of t = Confirmed \<and>
      (\<exists>x. insertConfirmed cfg env t w = (Some (TypeError x), w) \<and>
           filter_tweet cfg env t w = (Some (TypeError x), entered t w)))"
proof -
  have 1: "gnip t1 = gnip t2 \<and> (verdict_of t1 = Confirmed \<or> verdict_of t1 = Unconfirmed) \<longrightarrow>
      verdict_of t2 = verdict_of t1"
  proof (intro impI, elim conjE)
    assume g: "gnip t1 = gnip t2"
      and v: "verdict_of t1 = Confirmed \<or> verdict_of t1 = Unconfirmed"
    have c: "categorize t1 = categorize t2" by (simp add: categorize_def g)
    from v show "verdict_of t2 = verdict_of t1"
      unfolding verdict_of_def c by (auto simp: classify_def split: if_splits)
  qed
  have 2: "tagged ''geo'' t \<and> tagged ''addressed'' t \<and> \<not> hasGeo t \<longrightarrow>
      verdict_of t = Confirmed \<and>
      (\<exists>x. insertConfirmed cfg env t w = (Some (TypeError x), w) \<and>
           filter_tweet cfg env t w = (Some (TypeError x), entered t w))"
  proof (intro impI, elim conjE)
    assume a: "tagged ''geo'' t" "tagged ''addressed'' t" "\<not> hasGeo t"
    then have v: "verdict_of t = Confirmed"
      by (simp add: verdict_of_def categorize_tagged classify_def)
    obtain x where "geo_point t = Inl (TypeError x)"
      using geo_point_no_geo [OF a(3)] by blast
    then have "\<And>w. insertConfirmed cfg env t w = (Some (TypeError x), w)"
      by (simp add: insertConfirmed_def throw_def)
    then show "verdict_of t = Confirmed \<and>
      (\<exists>x. insertConfirmed cfg env t w = (Some (TypeError x), w) \<and>
           filter_tweet cfg env t w = (Some (TypeError x), entered t w))"
      by (auto simp: v filter_tweet_entered)
  qed
  show ?thesis using 1 2 by (simp add: classify_geo_free)
qed

theorem confirmed_unconfirmed_ignore_geo_witness:
  "verdict_of (example_tweet [''geo-boundingbox'', ''addressed-x''] here) = Confirmed \<and>
   verdict_of (example_tweet [''geo-boundingbox'', ''addressed-x''] None) = Confirmed \<and>
   (\<exists>x. filter_tweet example_config healthy
           (example_tweet [''geo-boundingbox'', ''addressed-x''] None) fresh =
         (Some (TypeError x),
          entered (example_tweet [''geo-boundingbox'', ''addressed-x''] None) fresh))"
proof -
  let ?t = "example_tweet [''geo-boundingbox'', ''addressed-x''] here"
  let ?u = "example_tweet [''geo-boundingbox'', ''addressed-x''] None"
  have tags: "tagged ''geo'' ?u" "tagged ''addressed'' ?u" "\<not> hasGeo ?u"
     "tagged ''geo'' ?t" "tagged ''addressed'' ?t"
    by (simp_all add: tagged_def example_tweet_def starts_with_def hasGeo_def)
  have v: "verdict_of ?t = Confirmed"
    by (simp add: verdict_of_def categorize_tagged tags classify_def)
  have g: "gnip ?t = gnip ?u" by (simp add: example_tweet_def)
  show ?thesis
    using confirmed_unconfirmed_ignore_geo
      [of ?t ?u True True True False ?u example_config healthy fresh]
    by (auto simp: v g tags)
qed


section \<open>The Confirmed branch\<close>

lemma on_tweet:
  "on_signal cfg env (Tweet t) c =
     (None,
      c\<lparr>world_of :=
          (case filter_tweet cfg env t (received t (world_of c)) of
             (None, w') \<Rightarrow> w'
           | (Some x, w') \<Rightarrow> w'\<lparr>trace := trace w' @ [Log Error (handler_line env x)]\<rparr>)\<rparr>)"
  by (simp add: in_world_def try_catch_def logger_json_def logger_def emit_def received_def
      handler_line_def split: prod.splits option.splits)


lemma emitted_insertConfirmed:
  assumes p: "geo_point t = Inr p"
  shows "filter is_InsertTweet (issued (emitted (insertConfirmed cfg env t) w)) =
       [InsertTweet (table_tweets cfg)
          [toLocaleString env (postedTime t), body t, hashtags (twitter_entities t),
           urls (twitter_entities t), user_mentions (twitter_entities t), twitter_lang t, p]] \<and>
     \<not> list_ex is_send (emitted (insertConfirmed cfg env t) w) \<and>
     \<not> list_ex is_test_mode_log (emitted (insertConfirmed cfg env t) w) \<and>
     filter is_UpsertTweetUsers (issued (emitted (insertConfirmed cfg env t) w)) =
       (if connect_err env (connects w) = None \<and> query_err env (queries w) = None
        then [UpsertTweetUsers (preferredUsername (actor t))] else [])"
proof (cases "connect_err env (connects w)")
  case (Some e)
  then show ?thesis
    by (simp add: emitted_def insertConfirmed_def p dbQuery_connect_err issued_def is_test_mode_log_def)
next
  case None
  show ?thesis
  proof (cases "query_err env (queries w)")
    case (Some e)
    with None show ?thesis
      by (simp add: emitted_def insertConfirmed_def p dbQuery_query_err issued_def
          is_test_mode_log_def)
  next
    case q: None
    show ?thesis
    proof (cases "connect_err env (Suc (connects w))")
      case (Some e)
      with None q show ?thesis
        by (simp add: emitted_def insertConfirmed_def p dbQuery_ok dbQuery_connect_err
            answered_def try_catch_def logger_def emit_def issued_def
            is_test_mode_log_def test_mode_line_def)
    next
      case c2: None
      show ?thesis
      proof (cases "query_err env (Suc (queries w))")
        case (Some e)
        with None q c2 show ?thesis
          by (simp add: emitted_def insertConfirmed_def p dbQuery_ok dbQuery_query_err
              answered_def try_catch_def logger_def emit_def issued_def
              is_test_mode_log_def test_mode_line_def)
      next
        case q2: None
        with None q c2 show ?thesis
          by (simp add: emitted_def insertConfirmed_def p dbQuery_ok
              answered_def try_catch_def logger_def emit_def issued_def
              is_test_mode_log_def test_mode_line_def)
      qed
    qed
  qed
qed


lemma emitted_insertConfirmed_throws:
  "geo_point t = Inl x \<Longrightarrow> emitted (insertConfirmed cfg env t) w = []"
  by (simp add: emitted_def insertConfirmed_def throw_def)

text \<open>
  For an event with verdict Confirmed that carries coordinates, exactly one report
  insert is issued and no notification is attempted (no tweet is handed to Twitter and
  no test-mode line is logged); the upsert of the author is issued if and only if the
  report insert succeeded, that is, the connection and the statement both returned
  without an error.
\<close>

lemma confirmed_with_coordinates:
  assumes v: "verdict_of t = Confirmed" and g: "hasGeo t"
  shows "(\<exists>p. geo_point t = Inr p \<and>
        filter is_InsertTweet (issued (emitted (filter_tweet cfg env t) w)) =
          [InsertTweet (table_tweets cfg)
             [toLocaleString env (postedTime t), body t, hashtags (twitter_entities t),
              urls (twitter_entities t), user_mentions (twitter_entities t), twitter_lang t,
              p]]) \<and>
     \<not> list_ex is_send (emitted (filter_tweet cfg env t) w) \<and>
     \<not> list_ex is_test_mode_log (emitted (filter_tweet cfg env t) w) \<and>
     filter is_UpsertTweetUsers (issued (emitted (filter_tweet cfg env t) w)) =
       (if connect_err env (connects w) = None \<and> query_err env (queries w) = None
        then [UpsertTweetUsers (preferredUsername (actor t))] else [])"
proof -
  obtain p where p: "geo_point t = Inr p"
    using geo_point_hasGeo [OF g] by blast
  have e: "emitted (filter_tweet cfg env t) w =
     [Log Verbose (received_line t),
      Log Verbose (''filter: Categorized tweetActivity via Gnip tags as '' @
                   tweetCategorizations t),
      Log Verbose ''filter: +BOUNDINGBOX +ADDRESSED = confirmed report''] @
     emitted (insertConfirmed cfg env t) (entered t w)"
    by (simp add: emitted_filter_tweet v)
  have c: "connects (entered t w) = connects w" "queries (entered t w) = queries w"
    by (simp_all add: entered_def)
  show ?thesis
    using emitted_insertConfirmed [OF p, of cfg env "entered t w"]
    unfolding e c
    by (simp add: p issued_def is_test_mode_log_def)
qed

text \<open>
  C6. The event with the tags \<^verbatim>\<open>geo-boundingbox\<close> and \<^verbatim>\<open>addressed-x\<close> and no \<^verbatim>\<open>geo\<close>
  property has the verdict Confirmed, which is decided by the tags alone.
  \<^verbatim>\<open>insertConfirmed\<close> reads \<^verbatim>\<open>tweetActivity.geo.coordinates\<close> while it builds the statement
  and throws a \<^verbatim>\<open>TypeError\<close> before \<^verbatim>\<open>dbQuery\<close> is entered: \<^verbatim>\<open>filter\<close> has logged its three
  lines and nothing else happens. No statement is issued, where the claim asks for
  exactly one report insert; the \<^verbatim>\<open>tweet\<close> handler catches the exception and logs it.
\<close>

theorem confirmed_without_coordinates_throws:
  "verdict_of (example_tweet [''geo-boundingbox'', ''addressed-x''] None) = Confirmed \<and>
   filter_tweet example_config healthy
     (example_tweet [''geo-boundingbox'', ''addressed-x''] None) fresh =
     (Some (TypeError ''tweetActivity.geo''),
      entered (example_tweet [''geo-boundingbox'', ''addressed-x''] None) fresh) \<and>
   emitted (filter_tweet example_config healthy
              (example_tweet [''geo-boundingbox'', ''addressed-x''] None)) fresh =
     [Log Verbose (received_line (example_tweet [''geo-boundingbox'', ''addressed-x''] None)),
      Log Verbose ''filter: Categorized tweetActivity via Gnip tags as +BOUNDINGBOX -GEO +ADDRESSED -LOCATION'',
      Log Verbose ''filter: +BOUNDINGBOX +ADDRESSED = confirmed report''] \<and>
   issued (emitted (filter_tweet example_config healthy
                      (example_tweet [''geo-boundingbox'', ''addressed-x''] None)) fresh) = [] \<and>
   last (trace (world_of (snd (on_signal example_config healthy
           (Tweet (example_tweet [''geo-boundingbox'', ''addressed-x''] None))
           (connectStream example_config fresh))))) =
     Log Error (handler_line healthy (TypeError ''tweetActivity.geo''))"
proof -
  let ?u = "example_tweet [''geo-boundingbox'', ''addressed-x''] None"
  have tags: "tagged ''geo'' ?u" "tagged ''addressed'' ?u" "\<not> tagged ''location'' ?u"
    "\<not> hasGeo ?u"
    by (simp_all add: tagged_def example_tweet_def starts_with_def hasGeo_def)
  have v: "verdict_of ?u = Confirmed"
    by (simp add: verdict_of_def categorize_tagged tags classify_def)
  have c: "tweetCategorizations ?u = ''+BOUNDINGBOX -GEO +ADDRESSED -LOCATION''"
    by (simp add: tweetCategorizations_def categorize_tagged tags sign_def)
  have g: "geo_point ?u = Inl (TypeError ''tweetActivity.geo'')"
    by (simp add: geo_point_def example_tweet_def)
  have f: "filter_tweet example_config healthy ?u w =
      (Some (TypeError ''tweetActivity.geo''), entered ?u w)" for w
    by (simp add: filter_tweet_entered v insertConfirmed_def g throw_def)
  have e: "emitted (filter_tweet example_config healthy ?u) fresh =
     [Log Verbose (received_line ?u),
      Log Verbose ''filter: Categorized tweetActivity via Gnip tags as +BOUNDINGBOX -GEO +ADDRESSED -LOCATION'',
      Log Verbose ''filter: +BOUNDINGBOX +ADDRESSED = confirmed report'']"
    by (simp add: emitted_def f entered_def v c fresh_def)
  have h: "last (trace (world_of (snd (on_signal example_config healthy (Tweet ?u)
           (connectStream example_config fresh))))) =
     Log Error (handler_line healthy (TypeError ''tweetActivity.geo''))"
    by (simp add: on_tweet f del: on_signal.simps)
  show ?thesis
    using v f [of fresh] e h by (simp add: issued_def)
qed

section \<open>The new-user check and the reply\<close>

lemma getMessage_eq:
  "getMessage cfg code lang w =
     (case resolve cfg code lang of
        Some v \<Rightarrow> (Some v, w)
      | None \<Rightarrow> (None, w\<lparr>trace := trace w @ [Log Warn (unresolved_line code lang)]\<rparr>))"
  by (simp add: getMessage_def resolve_def Let_def logger_def emit_def unresolved_line_def
      split: option.splits)

lemma getMessage_world:
  "\<exists>pre. trace (snd (getMessage cfg code lang w)) = trace w @ pre \<and>
         list_all (\<lambda>e. \<not> invitee_insert e) pre"
  "connects (snd (getMessage cfg code lang w)) = connects w"
  "queries (snd (getMessage cfg code lang w)) = queries w"
  "all_users (snd (getMessage cfg code lang w)) = all_users w"
  "updates (snd (getMessage cfg code lang w)) = updates w"
  by (cases "resolve cfg code lang"; simp add: getMessage_eq invitee_insert_def)+





lemma sendReplyTweet_new:
  assumes "connect_err env (connects w) = None" and "query_err env (queries w) = None"
    and "md5 env u \<notin> set (all_users w)"
  shows "sendReplyTweet cfg env u m cb w =
     try_catch (dispatch cfg env u m cb) (callback_error env)
       (answered cfg env (SelectUserHash (table_all_users cfg) u) w)"
  using assms
  by (simp add: sendReplyTweet_def ifNewUser_def dbQuery_ok filter_empty_conv)

lemma ifNewUser_new:
  assumes "connect_err env (connects w) = None" and "query_err env (queries w) = None"
    and "md5 env u \<notin> set (all_users w)"
  shows "ifNewUser cfg env u k w =
     try_catch (k \<lparr>rows = []\<rparr>) (callback_error env)
       (answered cfg env (SelectUserHash (table_all_users cfg) u) w)"
proof -
  have "filter (\<lambda>h. h = md5 env u) (all_users w) = []"
    using assms(3) by (auto simp: filter_empty_conv)
  then show ?thesis
    using assms(1,2) by (simp add: ifNewUser_def dbQuery_ok)
qed

lemma ifNewUser_known:
  assumes "connect_err env (connects w) = None" and "query_err env (queries w) = None"
    and "md5 env u \<in> set (all_users w)"
  shows "ifNewUser cfg env u k w = (None, known_world cfg env u w)"
proof -
  have "filter (\<lambda>h. h = md5 env u) (all_users w) \<noteq> []"
    using assms(3) by (auto simp: filter_empty_conv)
  then show ?thesis
    using assms(1,2)
    by (simp add: ifNewUser_def dbQuery_ok try_catch_def logger_def emit_def known_world_def)
qed

lemma ifNewUser_skipped:
  assumes "connect_err env (connects w) \<noteq> None \<or> query_err env (queries w) \<noteq> None \<or>
           md5 env u \<in> set (all_users w)"
  shows "ifNewUser cfg env u k w = ifNewUser cfg env u k' w \<and>
         fst (ifNewUser cfg env u k w) = None \<and>
         all_users (snd (ifNewUser cfg env u k w)) = all_users w \<and>
         updates (snd (ifNewUser cfg env u k w)) = updates w"
proof (cases "connect_err env (connects w)")
  case (Some e)
  then show ?thesis by (simp add: ifNewUser_def dbQuery_connect_err)
next
  case None
  show ?thesis
  proof (cases "query_err env (queries w)")
    case (Some e)
    with None show ?thesis by (simp add: ifNewUser_def dbQuery_query_err)
  next
    case q: None
    with None assms have "md5 env u \<in> set (all_users w)" by simp
    then show ?thesis
      using None q by (simp add: ifNewUser_known known_world_def answered_def)
  qed
qed


lemma ifNewUser_no_throw: "fst (ifNewUser cfg env u k w) = None"
proof (cases "connect_err env (connects w)")
  case (Some e)
  then show ?thesis by (simp add: ifNewUser_def dbQuery_connect_err)
next
  case None
  show ?thesis
  proof (cases "query_err env (queries w)")
    case (Some e)
    with None show ?thesis by (simp add: ifNewUser_def dbQuery_query_err)
  next
    case q: None
    with None show ?thesis
      by (simp add: ifNewUser_def dbQuery_ok try_catch_def callback_error_def logger_def emit_def
          split: prod.splits option.splits)
  qed
qed

lemma select_rows: "(pg_rows env (SelectUserHash tbl u) hashes = []) = (md5 env u \<notin> set hashes)"
  by (auto simp: filter_empty_conv)

text \<open>
  C8. \<^verbatim>\<open>ifNewUser\<close> runs its callback if and only if the existence query returns zero rows,
  that is, the connection and the query succeed and no row of the all-users table holds
  the hash of the name: then the callback runs with the empty result; in every other
  case the outcome is the same whatever the callback is. When the hash is in the table
  and the query succeeds, all that is added is the query and one debug line. The check
  never throws. Run twice in a row for a name whose hash is not in the table, with a
  callback that inserts nothing, it runs the callback both times.
\<close>

theorem new_user_check_idempotent:
  "(pg_rows env (SelectUserHash (table_all_users cfg) u) (all_users w) = []) =
     (md5 env u \<notin> set (all_users w)) \<and>
   (connect_err env (connects w) = None \<and> query_err env (queries w) = None \<and>
    md5 env u \<notin> set (all_users w) \<longrightarrow>
      ifNewUser cfg env u k w =
        try_catch (k \<lparr>rows = []\<rparr>) (callback_error env)
          (answered cfg env (SelectUserHash (table_all_users cfg) u) w)) \<and>
   (connect_err env (connects w) \<noteq> None \<or> query_err env (queries w) \<noteq> None \<or>
    md5 env u \<in> set (all_users w) \<longrightarrow>
      ifNewUser cfg env u k w = ifNewUser cfg env u (\<lambda>res. skip) w) \<and>
   (connect_err env (connects w) = None \<and> query_err env (queries w) = None \<and>
    md5 env u \<in> set (all_users w) \<longrightarrow>
      emitted (ifNewUser cfg env u k) w =
        [LogJSON Debug ''dbQuery: executing query: ''
           (JQuery (SelectUserHash (table_all_users cfg) u)) [],
         PgConnect (conString cfg), PgConnected None,
         PgQuery (SelectUserHash (table_all_users cfg) u), PgResult None, PgDone,
         LogJSON Debug ''dbQuery: success: ''
           (JQuery (SelectUserHash (table_all_users cfg) u)) [],
         Log Debug ''Not performing callback as user already exists'']) \<and>
   fst (ifNewUser cfg env u k w) = None \<and>
   ((\<forall>n. connect_err env n = None \<and> query_err env n = None) \<and>
    md5 env u \<notin> set (all_users w) \<longrightarrow>
      filter (\<lambda>e. e = Log Info m)
        (emitted (block [ifNewUser cfg env u (\<lambda>res. logger Info m),
                         ifNewUser cfg env u (\<lambda>res. logger Info m)]) w) =
        [Log Info m, Log Info m])"
proof -
  have twice: "filter (\<lambda>e. e = Log Info m)
        (emitted (block [ifNewUser cfg env u (\<lambda>res. logger Info m),
                         ifNewUser cfg env u (\<lambda>res. logger Info m)]) w) =
        [Log Info m, Log Info m]"
    if ok: "\<forall>n. connect_err env n = None \<and> query_err env n = None"
      and new: "md5 env u \<notin> set (all_users w)"
  proof -
    let ?q = "SelectUserHash (table_all_users cfg) u"
    let ?w1 = "(answered cfg env ?q w)\<lparr>trace := trace (answered cfg env ?q w) @ [Log Info m]\<rparr>"
    have 1: "ifNewUser cfg env u (\<lambda>res. logger Info m) w = (None, ?w1)"
      using ok new by (simp add: ifNewUser_new try_catch_def logger_def emit_def)
    have new1: "md5 env u \<notin> set (all_users ?w1)"
      using new by (simp add: answered_def)
    have 2: "ifNewUser cfg env u (\<lambda>res. logger Info m) ?w1 =
        (None, (answered cfg env ?q ?w1)\<lparr>trace := trace (answered cfg env ?q ?w1) @ [Log Info m]\<rparr>)"
      using ok new1 by (simp add: ifNewUser_new try_catch_def logger_def emit_def)
    show ?thesis
      by (simp add: emitted_def 1 2) (simp add: answered_def)
  qed
  have c1: "(pg_rows env (SelectUserHash (table_all_users cfg) u) (all_users w) = []) =
     (md5 env u \<notin> set (all_users w))"
    by (rule select_rows)
  have c2: "connect_err env (connects w) = None \<and> query_err env (queries w) = None \<and>
    md5 env u \<notin> set (all_users w) \<longrightarrow>
      ifNewUser cfg env u k w =
        try_catch (k \<lparr>rows = []\<rparr>) (callback_error env)
          (answered cfg env (SelectUserHash (table_all_users cfg) u) w)"
    by (simp add: ifNewUser_new)
  have c3: "connect_err env (connects w) \<noteq> None \<or> query_err env (queries w) \<noteq> None \<or>
    md5 env u \<in> set (all_users w) \<longrightarrow>
      ifNewUser cfg env u k w = ifNewUser cfg env u (\<lambda>res. skip) w"
    using ifNewUser_skipped [of env w u cfg k "\<lambda>res. skip"] by blast
  have c4: "connect_err env (connects w) = None \<and> query_err env (queries w) = None \<and>
    md5 env u \<in> set (all_users w) \<longrightarrow>
      emitted (ifNewUser cfg env u k) w =
        [LogJSON Debug ''dbQuery: executing query: ''
           (JQuery (SelectUserHash (table_all_users cfg) u)) [],
         PgConnect (conString cfg), PgConnected None,
         PgQuery (SelectUserHash (table_all_users cfg) u), PgResult None, PgDone,
         LogJSON Debug ''dbQuery: success: ''
           (JQuery (SelectUserHash (table_all_users cfg) u)) [],
         Log Debug ''Not performing callback as user already exists'']"
    by (simp add: emitted_def ifNewUser_known known_world_def answered_def)
  have c5: "fst (ifNewUser cfg env u k w) = None"
    by (rule ifNewUser_no_throw)
  have c6: "(\<forall>n. connect_err env n = None \<and> query_err env n = None) \<and>
    md5 env u \<notin> set (all_users w) \<longrightarrow>
      filter (\<lambda>e. e = Log Info m)
        (emitted (block [ifNewUser cfg env u (\<lambda>res. logger Info m),
                         ifNewUser cfg env u (\<lambda>res. logger Info m)]) w) =
        [Log Info m, Log Info m]"
    using twice by blast
  show ?thesis
    using c1 c2 c3 c4 c5 c6 by (intro conjI)
qed


theorem new_user_check_idempotent_witness:
  "md5 healthy ''alice'' \<notin> set (all_users fresh) \<and>
   filter (\<lambda>e. e = Log Info ''new'')
     (emitted (block [ifNewUser example_config healthy ''alice'' (\<lambda>res. logger Info ''new''),
                      ifNewUser example_config healthy ''alice'' (\<lambda>res. logger Info ''new'')])
        fresh) = [Log Info ''new'', Log Info ''new''] \<and>
   md5 healthy ''alice'' \<in> set (all_users known_alice) \<and>
   last (emitted (ifNewUser example_config healthy ''alice'' (\<lambda>res. logger Info ''new''))
           known_alice) = Log Debug ''Not performing callback as user already exists''"
  using new_user_check_idempotent
          [of healthy example_config "''alice''" fresh "\<lambda>res. logger Info ''new''" "''new''"]
        new_user_check_idempotent
          [of healthy example_config "''alice''" known_alice "\<lambda>res. logger Info ''new''" "''new''"]
  by (simp add: examples)

lemma sendReplyTweet_known:
  assumes "md5 env u \<in> set (all_users w)"
  shows "sendReplyTweet cfg env u m cb w = sendReplyTweet cfg env u m None w \<and>
     \<not> list_ex is_send (emitted (sendReplyTweet cfg env u m cb) w) \<and>
     \<not> list_ex is_test_mode_log (emitted (sendReplyTweet cfg env u m cb) w) \<and>
     \<not> list_ex invitee_insert (emitted (sendReplyTweet cfg env u m cb) w) \<and>
     updates (snd (sendReplyTweet cfg env u m cb w)) = updates w"
proof (cases "connect_err env (connects w)")
  case (Some e)
  then show ?thesis
    by (simp add: sendReplyTweet_def ifNewUser_def dbQuery_connect_err emitted_def
        is_test_mode_log_def invitee_insert_def)
next
  case None
  show ?thesis
  proof (cases "query_err env (queries w)")
    case (Some e)
    with None show ?thesis
      by (simp add: sendReplyTweet_def ifNewUser_def dbQuery_query_err emitted_def
          is_test_mode_log_def invitee_insert_def)
  next
    case q: None
    with None assms show ?thesis
      by (simp add: sendReplyTweet_def ifNewUser_known known_world_def answered_def emitted_def
          is_test_mode_log_def invitee_insert_def)
  qed
qed

text \<open>
  C3. \<^verbatim>\<open>sendReplyTweet\<close> is gated by the new-user check: for a recipient whose hash is in
  the all-users table no tweet is handed to Twitter, no test-mode line is logged, no
  invitee insert is issued, and the outcome is the same whatever the continuation is,
  so the continuation is never invoked. Conversely a tweet, a test-mode line or an
  invitee insert is only ever produced for an author whose hash is not in the table.
\<close>

theorem reply_only_to_new_users:
  "(md5 env u \<in> set (all_users w) \<longrightarrow>
      sendReplyTweet cfg env u m cb w = sendReplyTweet cfg env u m None w \<and>
      \<not> list_ex is_send (emitted (sendReplyTweet cfg env u m cb) w) \<and>
      \<not> list_ex is_test_mode_log (emitted (sendReplyTweet cfg env u m cb) w) \<and>
      \<not> list_ex invitee_insert (emitted (sendReplyTweet cfg env u m cb) w) \<and>
      updates (snd (sendReplyTweet cfg env u m cb w)) = updates w) \<and>
   (list_ex is_send (emitted (sendReplyTweet cfg env u m cb) w) \<or>
    list_ex is_test_mode_log (emitted (sendReplyTweet cfg env u m cb) w) \<or>
    list_ex invitee_insert (emitted (sendReplyTweet cfg env u m cb) w) \<longrightarrow>
      md5 env u \<notin> set (all_users w))"
  using sendReplyTweet_known [of env u w cfg m cb] by blast

theorem reply_only_to_new_users_witness:
  "md5 healthy ''alice'' \<in> set (all_users known_alice) \<and>
   emitted (sendReplyTweet example_config healthy ''alice'' (Some (Text ''Hi''))
              (Some (insertInvitee example_config healthy
                       (example_tweet [''location-chennai''] None)))) known_alice =
     [LogJSON Debug ''dbQuery: executing query: ''
        (JQuery (SelectUserHash ''tweet_all_users'' ''alice'')) [],
      PgConnect ''postgres://localhost/cognicity'', PgConnected None,
      PgQuery (SelectUserHash ''tweet_all_users'' ''alice''), PgResult None, PgDone,
      LogJSON Debug ''dbQuery: success: ''
        (JQuery (SelectUserHash ''tweet_all_users'' ''alice'')) [],
      Log Debug ''Not performing callback as user already exists'']"
proof -
  have k: "md5 healthy ''alice'' \<in> set (all_users known_alice)"
    by (simp add: examples)
  have c: "connect_err healthy (connects known_alice) = None"
     "query_err healthy (queries known_alice) = None"
    by (simp_all add: examples)
  have "sendReplyTweet example_config healthy ''alice'' (Some (Text ''Hi''))
          (Some (insertInvitee example_config healthy
                   (example_tweet [''location-chennai''] None))) known_alice =
        sendReplyTweet example_config healthy ''alice'' (Some (Text ''Hi'')) None known_alice"
    using reply_only_to_new_users [of healthy "''alice''" known_alice example_config
      "Some (Text ''Hi'')"
      "Some (insertInvitee example_config healthy (example_tweet [''location-chennai''] None))"] k
    by blast
  then show ?thesis
    using k c
    by (simp add: emitted_def sendReplyTweet_def ifNewUser_known known_world_def answered_def)
       (simp add: examples)
qed


lemma reply_eq:
  "reply cfg env t code cb w =
     sendReplyTweet cfg env (preferredUsername (actor t))
       (fst (getMessage cfg code (twitter_lang t) w)) cb
       (snd (getMessage cfg code (twitter_lang t) w))"
  by (simp add: reply_def split: prod.splits)

lemma adds_only_any_insertInvitee: "adds_only (\<lambda>e. True) (insertInvitee cfg env t)"
  by (rule adds_only_insertInvitee) simp_all


lemma getMessage_inherited_member:
  "messages cfg code = Some texts \<Longrightarrow> texts lang = None \<Longrightarrow> lang \<in> set object_members \<Longrightarrow>
   getMessage cfg code lang w = (Some (Inherited lang), w)"
  by (simp add: getMessage_eq resolve_def twitter_get_def)




section \<open>The invitation and the invitee record\<close>

lemma body_event_no_invitee:
  "v \<noteq> Unconfirmed \<Longrightarrow> v \<noteq> Invite \<Longrightarrow> body_event cfg v e \<Longrightarrow> \<not> invitee_insert e"
  by (cases e) (auto simp: invitee_insert_def split: json.splits)

lemma body_event_no_send: "\<not> send_enabled cfg \<Longrightarrow> body_event cfg v e \<Longrightarrow> \<not> is_send e"
  by (cases e) auto

lemma dispatch_first_True: "dispatch_first True es"
  by (induction es) auto

lemma dispatch_first_quiet: "list_all (\<lambda>e. \<not> invitee_insert e) es \<Longrightarrow> dispatch_first b es"
  by (induction es arbitrary: b) auto

lemma dispatch_first_mono: "dispatch_first False es \<Longrightarrow> dispatch_first b es"
  by (cases b) (simp_all add: dispatch_first_True)

lemma dispatch_first_append:
  "list_all (\<lambda>e. \<not> invitee_insert e) xs \<Longrightarrow> dispatch_first False ys \<Longrightarrow>
   dispatch_first b (xs @ ys)"
  by (induction xs arbitrary: b) (auto intro: dispatch_first_mono)

lemma dispatch_first_after:
  "list_all (\<lambda>e. \<not> invitee_insert e) xs \<Longrightarrow> dispatch_ok d \<Longrightarrow> \<not> invitee_insert d \<Longrightarrow>
   dispatch_first b (xs @ d # ys)"
  by (rule dispatch_first_append) (simp_all add: dispatch_first_True)

lemma no_invitee_iff: "(\<not> list_ex invitee_insert es) = list_all (\<lambda>e. \<not> invitee_insert e) es"
  by (simp add: list_ex_iff list_all_iff)

lemma sendReplyTweet_skipped:
  assumes "connect_err env (connects w) \<noteq> None \<or> query_err env (queries w) \<noteq> None \<or>
           md5 env u \<in> set (all_users w)"
  shows "\<not> list_ex invitee_insert (emitted (sendReplyTweet cfg env u m cb) w)"
proof (cases "connect_err env (connects w)")
  case (Some e)
  then show ?thesis
    by (simp add: sendReplyTweet_def ifNewUser_def dbQuery_connect_err emitted_def
        invitee_insert_def)
next
  case None
  show ?thesis
  proof (cases "query_err env (queries w)")
    case (Some e)
    with None show ?thesis
      by (simp add: sendReplyTweet_def ifNewUser_def dbQuery_query_err emitted_def
          invitee_insert_def)
  next
    case q: None
    with None assms have "md5 env u \<in> set (all_users w)" by simp
    then show ?thesis using sendReplyTweet_known by blast
  qed
qed

lemma dispatch_send_error:
  "send_enabled cfg \<Longrightarrow> tweet_err env (updates w) = Some err \<Longrightarrow>
   dispatch cfg env u m cb w =
     (None, w\<lparr>updates := Suc (updates w),
              trace := trace w @
                [TwitUpdateStatus (''@'' @ u @ '' '' @ js_string env m), TwitReplied (Some err),
                 Log Error (''Tweeting failed: '' @ err)]\<rparr>)"
  by (simp add: dispatch_def prims)

lemma dispatch_send_ok:
  "send_enabled cfg \<Longrightarrow> tweet_err env (updates w) = None \<Longrightarrow>
   dispatch cfg env u m (Some cb) w =
     cb (w\<lparr>updates := Suc (updates w),
           trace := trace w @
             [TwitUpdateStatus (''@'' @ u @ '' '' @ js_string env m), TwitReplied None]\<rparr>)"
  by (simp add: dispatch_def prims)

lemma dispatch_test_mode:
  "\<not> send_enabled cfg \<Longrightarrow>
   dispatch cfg env u m (Some cb) w =
     cb (w\<lparr>trace := trace w @
             [Log Info test_mode_line, Log Info (''@'' @ u @ '' '' @ js_string env m)]\<rparr>)"
  by (simp add: dispatch_def prims test_mode_line_def split: prod.splits option.splits)

lemma caught_insertInvitee:
  "\<exists>new. trace (snd (try_catch (insertInvitee cfg env t) (callback_error env) w)) = trace w @ new"
proof -
  have "adds_only (\<lambda>e. True) (try_catch (insertInvitee cfg env t) (callback_error env))"
    by (intro adds_only_try_catch adds_only_any_insertInvitee)
       (simp add: callback_error_def adds_only_logger)
  then show ?thesis using adds_onlyD by blast
qed

lemma try_catch_cong_action: "a w = b w' \<Longrightarrow> try_catch a h w = try_catch b h w'"
  by (simp add: try_catch_def)

lemma dispatched_trace:
  "\<exists>new. trace (snd (dispatched cfg env u m t w)) = trace w @ new \<and>
         dispatch_first False new \<and>
         (send_enabled cfg \<and> tweet_err env (updates w) \<noteq> None \<longrightarrow>
            list_all (\<lambda>e. \<not> invitee_insert e) new)"
proof (cases "send_enabled cfg")
  case False
  let ?w1 = "w\<lparr>trace := trace w @
             [Log Info test_mode_line, Log Info (''@'' @ u @ '' '' @ js_string env m)]\<rparr>"
  have d: "dispatched cfg env u m t w =
           try_catch (insertInvitee cfg env t) (callback_error env) ?w1"
    unfolding dispatched_def
    by (rule try_catch_cong_action) (simp add: dispatch_test_mode False)
  obtain new where "trace (snd (try_catch (insertInvitee cfg env t) (callback_error env) ?w1)) =
      trace ?w1 @ new"
    using caught_insertInvitee by blast
  then have "trace (snd (dispatched cfg env u m t w)) =
      trace w @ [] @ Log Info test_mode_line # (Log Info (''@'' @ u @ '' '' @ js_string env m) # new)"
    by (simp add: d)
  moreover have "dispatch_first False
      ([] @ Log Info test_mode_line # (Log Info (''@'' @ u @ '' '' @ js_string env m) # new))"
    by (rule dispatch_first_after)
       (simp_all add: dispatch_ok_def is_test_mode_log_def invitee_insert_def)
  ultimately show ?thesis using False by blast
next
  case True
  show ?thesis
  proof (cases "tweet_err env (updates w)")
    case (Some err)
    then show ?thesis
      using True
      by (simp add: dispatched_def try_catch_def dispatch_send_error invitee_insert_def
          dispatch_ok_def is_test_mode_log_def)
  next
    case None
    let ?s = "''@'' @ u @ '' '' @ js_string env m"
    let ?w1 = "w\<lparr>updates := Suc (updates w),
                  trace := trace w @ [TwitUpdateStatus ?s, TwitReplied None]\<rparr>"
    have d: "dispatched cfg env u m t w =
             try_catch (insertInvitee cfg env t) (callback_error env) ?w1"
      unfolding dispatched_def
      by (rule try_catch_cong_action) (simp add: dispatch_send_ok True None)
    obtain new where "trace (snd (try_catch (insertInvitee cfg env t) (callback_error env) ?w1)) =
        trace ?w1 @ new"
      using caught_insertInvitee by blast
    then have "trace (snd (dispatched cfg env u m t w)) =
        trace w @ [TwitUpdateStatus ?s] @ TwitReplied None # new"
      by (simp add: d)
    moreover have "dispatch_first False ([TwitUpdateStatus ?s] @ TwitReplied None # new)"
      by (rule dispatch_first_after)
         (simp_all add: dispatch_ok_def is_test_mode_log_def invitee_insert_def)
    ultimately show ?thesis using None by auto
  qed
qed


lemma guardedI:
  "(\<And>w. \<exists>new. trace (snd (a w)) = trace w @ new \<and> dispatch_first False new \<and>
        (send_enabled cfg \<and> tweet_err env (updates w) \<noteq> None \<longrightarrow>
           list_all (\<lambda>e. \<not> invitee_insert e) new)) \<Longrightarrow> guarded env cfg a"
  by (simp add: guarded_def)

lemma guardedD:
  "guarded env cfg a \<Longrightarrow>
     \<exists>new. trace (snd (a w)) = trace w @ new \<and> dispatch_first False new \<and>
        (send_enabled cfg \<and> tweet_err env (updates w) \<noteq> None \<longrightarrow>
           list_all (\<lambda>e. \<not> invitee_insert e) new)"
  by (simp add: guarded_def)

lemma guarded_quiet: "adds_only (\<lambda>e. \<not> invitee_insert e) a \<Longrightarrow> guarded env cfg a"
proof (rule guardedI)
  fix w
  assume "adds_only (\<lambda>e. \<not> invitee_insert e) a"
  then obtain new where "trace (snd (a w)) = trace w @ new"
    "list_all (\<lambda>e. \<not> invitee_insert e) new"
    using adds_onlyD by blast
  then show "\<exists>new. trace (snd (a w)) = trace w @ new \<and> dispatch_first False new \<and>
        (send_enabled cfg \<and> tweet_err env (updates w) \<noteq> None \<longrightarrow>
           list_all (\<lambda>e. \<not> invitee_insert e) new)"
    using dispatch_first_quiet by blast
qed

lemma guarded_sendReplyTweet:
  "guarded env cfg (sendReplyTweet cfg env u m (Some (insertInvitee cfg env t)))"
proof (rule guardedI)
  fix w
  let ?a = "sendReplyTweet cfg env u m (Some (insertInvitee cfg env t))"
  let ?q = "SelectUserHash (table_all_users cfg) u"
  show "\<exists>new. trace (snd (?a w)) = trace w @ new \<and> dispatch_first False new \<and>
        (send_enabled cfg \<and> tweet_err env (updates w) \<noteq> None \<longrightarrow>
           list_all (\<lambda>e. \<not> invitee_insert e) new)"
  proof (cases "connect_err env (connects w) = None \<and> query_err env (queries w) = None \<and>
                md5 env u \<notin> set (all_users w)")
    case False
    then have k: "connect_err env (connects w) \<noteq> None \<or> query_err env (queries w) \<noteq> None \<or>
                  md5 env u \<in> set (all_users w)" by auto
    have q: "adds_only (\<lambda>e. True) (ifNewUser cfg env u (\<lambda>res. skip))"
      by (rule adds_only_ifNewUser) (simp_all add: adds_only_skip)
    have e: "?a w = ifNewUser cfg env u (\<lambda>res. skip) w"
      unfolding sendReplyTweet_def using ifNewUser_skipped [OF k] by blast
    have "\<not> list_ex invitee_insert (emitted ?a w)"
      using sendReplyTweet_skipped [OF k] by blast
    then have "list_all (\<lambda>e. \<not> invitee_insert e) (emitted ?a w)"
      by (simp add: no_invitee_iff)
    moreover have "trace (snd (?a w)) = trace w @ emitted ?a w"
      using adds_only_emitted [OF q, of w] by (simp add: e emitted_def)
    ultimately show ?thesis
      using dispatch_first_quiet by blast
  next
    case True
    let ?w1 = "answered cfg env ?q w"
    have e: "?a w = dispatched cfg env u m t ?w1"
      using True by (simp add: sendReplyTweet_new dispatched_def)
    obtain new where new: "trace (snd (dispatched cfg env u m t ?w1)) = trace ?w1 @ new"
      "dispatch_first False new"
      "send_enabled cfg \<and> tweet_err env (updates ?w1) \<noteq> None \<longrightarrow>
         list_all (\<lambda>e. \<not> invitee_insert e) new"
      using dispatched_trace by blast
    let ?pre = "[LogJSON Debug ''dbQuery: executing query: '' (JQuery ?q) [],
          PgConnect (conString cfg), PgConnected None,
          PgQuery ?q, PgResult None, PgDone,
          LogJSON Debug ''dbQuery: success: '' (JQuery ?q) []]"
    have pre: "list_all (\<lambda>e. \<not> invitee_insert e) ?pre"
      by (simp add: invitee_insert_def)
    have "trace (snd (?a w)) = trace w @ (?pre @ new)"
      by (simp add: e new(1)) (simp add: answered_def)
    moreover have "dispatch_first False (?pre @ new)"
      by (rule dispatch_first_append [OF pre new(2)])
    moreover have "send_enabled cfg \<and> tweet_err env (updates w) \<noteq> None \<longrightarrow>
         list_all (\<lambda>e. \<not> invitee_insert e) (?pre @ new)"
      using new(3) pre by (simp add: answered_def)
    ultimately show ?thesis by blast
  qed
qed


lemma guarded_reply:
  "guarded env cfg (reply cfg env t code (Some (insertInvitee cfg env t)))"
proof (rule guardedI)
  fix w
  let ?g = "getMessage cfg code (twitter_lang t) w"
  obtain pre where pre: "trace (snd ?g) = trace w @ pre"
    "list_all (\<lambda>e. \<not> invitee_insert e) pre"
    using getMessage_world(1) by blast
  have u: "updates (snd ?g) = updates w" by (rule getMessage_world)
  obtain new where new:
    "trace (snd (reply cfg env t code (Some (insertInvitee cfg env t)) w)) = trace (snd ?g) @ new"
    "dispatch_first False new"
    "send_enabled cfg \<and> tweet_err env (updates (snd ?g)) \<noteq> None \<longrightarrow>
       list_all (\<lambda>e. \<not> invitee_insert e) new"
    unfolding reply_eq using guardedD [OF guarded_sendReplyTweet] by blast
  have "trace (snd (reply cfg env t code (Some (insertInvitee cfg env t)) w)) =
        trace w @ (pre @ new)"
    by (simp add: new(1) pre(1))
  moreover have "dispatch_first False (pre @ new)"
    by (rule dispatch_first_append [OF pre(2) new(2)])
  moreover have "send_enabled cfg \<and> tweet_err env (updates w) \<noteq> None \<longrightarrow>
       list_all (\<lambda>e. \<not> invitee_insert e) (pre @ new)"
    using new(3) pre(2) by (simp add: u)
  ultimately show "\<exists>new. trace (snd (reply cfg env t code (Some (insertInvitee cfg env t)) w)) =
       trace w @ new \<and> dispatch_first False new \<and>
        (send_enabled cfg \<and> tweet_err env (updates w) \<noteq> None \<longrightarrow>
           list_all (\<lambda>e. \<not> invitee_insert e) new)"
    by blast
qed

lemma guarded_after:
  assumes a: "adds_only (\<lambda>e. \<not> invitee_insert e) a"
    and u: "\<And>w. updates (snd (a w)) = updates w"
    and b: "guarded env cfg b"
  shows "guarded env cfg (block [a, b])"
proof (rule guardedI)
  fix w
  obtain n1 where n1: "trace (snd (a w)) = trace w @ n1"
    "list_all (\<lambda>e. \<not> invitee_insert e) n1"
    using adds_onlyD [OF a] by blast
  show "\<exists>new. trace (snd (block [a, b] w)) = trace w @ new \<and> dispatch_first False new \<and>
        (send_enabled cfg \<and> tweet_err env (updates w) \<noteq> None \<longrightarrow>
           list_all (\<lambda>e. \<not> invitee_insert e) new)"
  proof (cases "fst (a w)")
    case (Some e)
    then have "block [a, b] w = (Some e, snd (a w))"
      by (cases "a w") simp
    then have "trace (snd (block [a, b] w)) = trace w @ n1"
      by (simp only: snd_conv n1(1))
    then show ?thesis
      using n1(2) dispatch_first_quiet by blast
  next
    case None
    then have e: "block [a, b] w = b (snd (a w))"
      by (cases "a w") (simp split: prod.splits option.splits)
    obtain n2 where n2: "trace (snd (b (snd (a w)))) = trace (snd (a w)) @ n2"
      "dispatch_first False n2"
      "send_enabled cfg \<and> tweet_err env (updates (snd (a w))) \<noteq> None \<longrightarrow>
         list_all (\<lambda>e. \<not> invitee_insert e) n2"
      using guardedD [OF b] by blast
    have "trace (snd (block [a, b] w)) = trace w @ (n1 @ n2)"
      by (simp only: e n2(1) n1(1) append_assoc)
    moreover have "dispatch_first False (n1 @ n2)"
      by (rule dispatch_first_append [OF n1(2) n2(2)])
    moreover have "send_enabled cfg \<and> tweet_err env (updates w) \<noteq> None \<longrightarrow>
         list_all (\<lambda>e. \<not> invitee_insert e) (n1 @ n2)"
      using n2(3) n1(2) by (simp add: u)
    ultimately show ?thesis by blast
  qed
qed

lemma updates_dbQuery_log:
  "updates (snd (dbQuery cfg env q (Some (\<lambda>res. logger lvl m)) w)) = updates w"
proof (cases "connect_err env (connects w)")
  case (Some e)
  then show ?thesis by (simp add: dbQuery_connect_err)
next
  case None
  show ?thesis
  proof (cases "query_err env (queries w)")
    case (Some e)
    with None show ?thesis by (simp add: dbQuery_query_err)
  next
    case q: None
    with None show ?thesis
      by (simp add: dbQuery_ok try_catch_def logger_def emit_def answered_def)
  qed
qed

lemma updates_insertUnConfirmed: "updates (snd (insertUnConfirmed cfg env t w)) = updates w"
  by (cases "geo_point t") (simp_all add: insertUnConfirmed_def throw_def updates_dbQuery_log)

lemma quiet_insertUnConfirmed:
  "adds_only (\<lambda>e. \<not> invitee_insert e) (insertUnConfirmed cfg env t)"
proof (rule adds_only_insertUnConfirmed)
  fix q e
  assume "\<not> is_InsertInvitee q" "db_event q e"
  then show "\<not> invitee_insert e"
    by (cases e) (auto simp: invitee_insert_def)
qed (simp add: invitee_insert_def)

lemma guarded_branch_body: "guarded env cfg (branch_body cfg env t v)"
proof -
  have q: "v \<noteq> Unconfirmed \<Longrightarrow> v \<noteq> Invite \<Longrightarrow> guarded env cfg (branch_body cfg env t v)"
    by (rule guarded_quiet, rule adds_only_mono [OF adds_only_branch_body])
       (rule body_event_no_invitee)
  show ?thesis
  proof (cases v)
    case Unconfirmed
    then show ?thesis
      by (simp add: guarded_after quiet_insertUnConfirmed updates_insertUnConfirmed guarded_reply)
  next
    case Invite
    then show ?thesis by (simp add: guarded_reply)
  qed (use q in simp_all)
qed

text \<open>
  C2. In what \<^verbatim>\<open>filter\<close> does for an event, of any verdict, a notification dispatch that
  succeeded (Twitter's callback without an error, or the test-mode line when sending is
  disabled) comes before every invitee insert. When Twitter answers the tweet with an
  error, no invitee insert is issued. When sending is disabled nothing is handed to
  Twitter, and the callback of \<^verbatim>\<open>sendReplyTweet\<close> still runs its continuation: the
  continuation runs after a tweet that was sent without an error and after the
  test-mode lines, and does not run after a send error.
\<close>

theorem invitee_only_after_dispatch:
  "dispatch_first False (emitted (filter_tweet cfg env t) w) \<and>
   (send_enabled cfg \<and> tweet_err env (updates w) \<noteq> None \<longrightarrow>
      \<not> list_ex invitee_insert (emitted (filter_tweet cfg env t) w)) \<and>
   (\<not> send_enabled cfg \<longrightarrow> \<not> list_ex is_send (emitted (filter_tweet cfg env t) w)) \<and>
   (send_enabled cfg \<and> tweet_err env (updates w) = Some err \<longrightarrow>
      dispatch cfg env u m (Some cb) w =
        (None, w\<lparr>updates := Suc (updates w),
                 trace := trace w @
                   [TwitUpdateStatus (''@'' @ u @ '' '' @ js_string env m), TwitReplied (Some err),
                    Log Error (''Tweeting failed: '' @ err)]\<rparr>)) \<and>
   (send_enabled cfg \<and> tweet_err env (updates w) = None \<longrightarrow>
      dispatch cfg env u m (Some cb) w =
        cb (w\<lparr>updates := Suc (updates w),
              trace := trace w @
                [TwitUpdateStatus (''@'' @ u @ '' '' @ js_string env m), TwitReplied None]\<rparr>)) \<and>
   (\<not> send_enabled cfg \<longrightarrow>
      dispatch cfg env u m (Some cb) w =
        cb (w\<lparr>trace := trace w @
                [Log Info test_mode_line, Log Info (''@'' @ u @ '' '' @ js_string env m)]\<rparr>))"
proof -
  let ?E = "emitted (filter_tweet cfg env t) w"
  let ?B = "emitted (branch_body cfg env t (verdict_of t)) (entered t w)"
  obtain new where new:
    "trace (snd (branch_body cfg env t (verdict_of t) (entered t w))) = trace (entered t w) @ new"
    "dispatch_first False new"
    "send_enabled cfg \<and> tweet_err env (updates (entered t w)) \<noteq> None \<longrightarrow>
       list_all (\<lambda>e. \<not> invitee_insert e) new"
    using guardedD [OF guarded_branch_body] by blast
  have B: "?B = new" by (simp add: emitted_def new(1))
  have head: "list_all (\<lambda>e. \<not> invitee_insert e)
     [Log Verbose (received_line t),
      Log Verbose (''filter: Categorized tweetActivity via Gnip tags as '' @
                   tweetCategorizations t),
      branch_log t (verdict_of t)]"
    by (cases "verdict_of t") (simp_all add: invitee_insert_def)
  have c1: "dispatch_first False ?E"
    unfolding emitted_filter_tweet B by (rule dispatch_first_append [OF head new(2)])
  have c2: "send_enabled cfg \<and> tweet_err env (updates w) \<noteq> None \<longrightarrow>
      \<not> list_ex invitee_insert ?E"
    unfolding emitted_filter_tweet B no_invitee_iff
    using new(3) head by (simp add: entered_def)
  have "list_all (body_event cfg (verdict_of t)) ?B"
    using adds_only_emitted [OF adds_only_branch_body] by blast
  then have c3: "\<not> send_enabled cfg \<longrightarrow> \<not> list_ex is_send ?E"
    unfolding emitted_filter_tweet
    by (cases "verdict_of t")
       (auto simp: list_ex_iff list_all_iff dest: body_event_no_send)
  show ?thesis
    using c1 c2 c3
    by (simp add: dispatch_send_error dispatch_send_ok dispatch_test_mode)
qed


lemmas run_defs = filter_tweet_entered reply_eq getMessage_eq resolve_def twitter_get_def
  js_string_def
  sendReplyTweet_def ifNewUser_def dispatch_def insertInvitee_def dbQuery_def prims
  entered_def emitted_def issued_def verdict_of_def categorize_def visit_rule_def indexOf_def
  classify_def hasGeo_def

theorem invitee_only_after_dispatch_witness:
  "verdict_of (example_tweet [''location-chennai''] None) = Invite \<and>
   dispatch_first False
     (emitted (filter_tweet example_config healthy (example_tweet [''location-chennai''] None))
        fresh) \<and>
   filter is_InsertInvitee
     (issued (emitted (filter_tweet example_config healthy
                         (example_tweet [''location-chennai''] None)) fresh)) =
     [InsertInvitee ''tweet_invitees'' ''alice''] \<and>
   tweet_err twitter_down (updates fresh) = Some ''503'' \<and>
   \<not> list_ex invitee_insert
       (emitted (filter_tweet example_config twitter_down
                   (example_tweet [''location-chennai''] None)) fresh) \<and>
   \<not> list_ex is_send
       (emitted (filter_tweet (example_config\<lparr>send_enabled := False\<rparr>) healthy
                   (example_tweet [''location-chennai''] None)) fresh) \<and>
   filter is_InsertInvitee
     (issued (emitted (filter_tweet (example_config\<lparr>send_enabled := False\<rparr>) healthy
                         (example_tweet [''location-chennai''] None)) fresh)) =
     [InsertInvitee ''tweet_invitees'' ''alice'']"
proof -
  let ?t = "example_tweet [''location-chennai''] None"
  have tags: "\<not> tagged ''geo'' ?t" "\<not> tagged ''addressed'' ?t" "tagged ''location'' ?t"
     "\<not> hasGeo ?t"
    by (simp_all add: tagged_def example_tweet_def starts_with_def hasGeo_def)
  have v: "verdict_of ?t = Invite"
    by (simp add: verdict_of_def categorize_tagged tags classify_def)
  have on: "send_enabled example_config" "\<not> send_enabled (example_config\<lparr>send_enabled := False\<rparr>)"
    "tweet_err twitter_down (updates fresh) = Some ''503''"
    by (simp_all add: examples)
  have 1: "filter is_InsertInvitee
     (issued (emitted (filter_tweet example_config healthy ?t) fresh)) =
     [InsertInvitee ''tweet_invitees'' ''alice'']"
    by (simp add: run_defs v examples)
  have 2: "filter is_InsertInvitee
     (issued (emitted (filter_tweet (example_config\<lparr>send_enabled := False\<rparr>) healthy ?t)
        fresh)) = [InsertInvitee ''tweet_invitees'' ''alice'']"
    by (simp add: run_defs v examples)
  show ?thesis
    using invitee_only_after_dispatch [of example_config healthy ?t fresh]
      invitee_only_after_dispatch [of example_config twitter_down ?t fresh]
      invitee_only_after_dispatch [of "example_config\<lparr>send_enabled := False\<rparr>" healthy ?t fresh]
    by (simp add: v on 1 2)
qed

section \<open>The connection\<close>

lemmas conn_defs = reconnectStream_def reconnectSocket_def setTimeout_def clearTimeout_def
  stream_start_def observe_def emit_def Let_def

lemma one_timer_cases:
  "one_timer c \<Longrightarrow>
     timers c = [] \<or> (\<exists>h ms. timers c = [(h, ms)] \<and> reconnectTimeoutHandle c = Some h)"
  by (cases "timers c") (auto simp: one_timer_def)

lemma reconnectStream_timers:
  assumes "one_timer c"
  shows "timers (reconnectStream env c) =
           [(next_handle c, timer_delay (js_times (streamReconnectTimeout c) 1000))] \<and>
         reconnectTimeoutHandle (reconnectStream env c) = Some (next_handle c) \<and>
         streamReconnectTimeout (reconnectStream env c) = streamReconnectTimeout c \<and>
         next_handle (reconnectStream env c) = Suc (next_handle c)"
  using one_timer_cases [OF assms]
  by (auto simp: conn_defs split: option.splits)

lemma observe_fields [simp]:
  "timers (observe e c) = timers c"
  "reconnectTimeoutHandle (observe e c) = reconnectTimeoutHandle c"
  "streamReconnectTimeout (observe e c) = streamReconnectTimeout c"
  "next_handle (observe e c) = next_handle c"
  "stream_req (observe e c) = stream_req c"
  "one_timer (observe e c) = one_timer c"
  by (simp_all add: observe_def one_timer_def)

lemma one_timer_reconnectStream: "one_timer c \<Longrightarrow> one_timer (reconnectStream env c)"
  using reconnectStream_timers [of c env] by (simp add: one_timer_def)

lemma in_world_fields [simp]:
  "timers (snd (in_world a c)) = timers c"
  "reconnectTimeoutHandle (snd (in_world a c)) = reconnectTimeoutHandle c"
  "streamReconnectTimeout (snd (in_world a c)) = streamReconnectTimeout c"
  "next_handle (snd (in_world a c)) = next_handle c"
  by (simp_all add: in_world_def split: prod.splits)

lemma stream_start_fields [simp]:
  "timers (snd (stream_start cfg c)) = timers c"
  "reconnectTimeoutHandle (snd (stream_start cfg c)) = reconnectTimeoutHandle c"
  "streamReconnectTimeout (snd (stream_start cfg c)) = streamReconnectTimeout c"
  "next_handle (snd (stream_start cfg c)) = next_handle c"
  "fst (stream_start cfg c) = (if has_url cfg then None else Some InvalidEndpoint)"
  by (simp_all add: stream_start_def Let_def)

lemma reconnectSocket_fields:
  "timers (snd (reconnectSocket cfg c)) = timers c"
  "reconnectTimeoutHandle (snd (reconnectSocket cfg c)) = reconnectTimeoutHandle c"
  "next_handle (snd (reconnectSocket cfg c)) = next_handle c"
  "fst (reconnectSocket cfg c) = (if has_url cfg then None else Some InvalidEndpoint)"
  "streamReconnectTimeout (snd (reconnectSocket cfg c)) =
     (if has_url cfg then js_times (streamReconnectTimeout c) 2 else streamReconnectTimeout c)"
  by (simp_all add: reconnectSocket_def stream_start_def Let_def)

lemma one_timer_on_signal: "one_timer c \<Longrightarrow> one_timer (snd (on_signal cfg env s c))"
proof (cases s)
  case (TimerFired h)
  assume "one_timer c"
  then show ?thesis
    using one_timer_cases [of c]
    by (auto simp: TimerFired one_timer_def reconnectSocket_fields)
next
  case Ready
  assume "one_timer c"
  then show ?thesis by (simp add: Ready Let_def one_timer_def)
next
  case (Tweet t)
  assume "one_timer c"
  then show ?thesis by (simp add: Tweet one_timer_def)
next
  case (RulesUpdated err)
  assume "one_timer c"
  then show ?thesis
    by (cases err) (simp_all add: RulesUpdated one_timer_def)
qed (simp_all add: one_timer_reconnectStream)

lemma one_timer_after: "one_timer c \<Longrightarrow> one_timer (after cfg env ss c)"
proof (induction ss arbitrary: c)
  case Nil
  then show ?case by (simp add: after_def)
next
  case (Cons s ss)
  show ?case
  proof (cases "on_signal cfg env s c")
    case (Pair x c')
    have c': "one_timer c'"
      using one_timer_on_signal [OF Cons.prems, of cfg env s] by (simp add: Pair)
    show ?thesis
      using Cons.IH [OF c'] c' by (cases x) (simp_all add: after_def Pair)
  qed
qed

lemma one_timer_connectStream: "one_timer (connectStream cfg w)"
  by (simp add: connectStream_def one_timer_def Let_def)

lemma trigger_timers:
  assumes "one_timer c" and "is_trigger d"
  shows "on_signal cfg env d c = (None, after cfg env [d] c) \<and>
         timers (after cfg env [d] c) =
           [(next_handle c, timer_delay (js_times (streamReconnectTimeout c) 1000))] \<and>
         streamReconnectTimeout (after cfg env [d] c) = streamReconnectTimeout c"
  using assms reconnectStream_timers [of c env]
    reconnectStream_timers [of "observe e c" env for e]
  by (cases d) (simp_all add: after_def)

lemma after_Nil [simp]: "after cfg env [] c = c"
  by (simp add: after_def)

lemma after_step:
  "fst (on_signal cfg env s c) = None \<Longrightarrow>
   after cfg env (s # ss) c = after cfg env ss (after cfg env [s] c)"
  by (cases "on_signal cfg env s c") (simp add: after_def)

lemma trigger_no_throw: "is_trigger d \<Longrightarrow> fst (on_signal cfg env d c) = None"
  by (cases d) simp_all

lemma burst_timers:
  assumes "one_timer c" and "burst \<noteq> []" and "list_all is_trigger burst"
  shows "(\<exists>h. timers (after cfg env burst c) =
                [(h, timer_delay (js_times (streamReconnectTimeout c) 1000))]) \<and>
         streamReconnectTimeout (after cfg env burst c) = streamReconnectTimeout c"
  using assms
proof (induction burst arbitrary: c)
  case Nil
  then show ?case by simp
next
  case (Cons d rest)
  then have d: "is_trigger d" and r: "list_all is_trigger rest" by simp_all
  let ?c1 = "after cfg env [d] c"
  have s: "after cfg env (d # rest) c = after cfg env rest ?c1"
    by (rule after_step [OF trigger_no_throw [OF d]])
  have 1: "timers ?c1 = [(next_handle c, timer_delay (js_times (streamReconnectTimeout c) 1000))]"
    "streamReconnectTimeout ?c1 = streamReconnectTimeout c"
    using trigger_timers [OF Cons.prems(1) d, of cfg env] by simp_all
  have o: "one_timer ?c1" by (rule one_timer_after [OF Cons.prems(1)])
  show ?case
  proof (cases rest)
    case Nil
    then show ?thesis using 1 by simp
  next
    case (Cons d' rest')
    then have "rest \<noteq> []" by simp
    from Cons.IH [OF o this r] show ?thesis by (simp add: s 1)
  qed
qed



lemma trigger_trace:
  assumes "one_timer c" and "is_trigger d"
  shows "filter is_timer_call (emitted_conn cfg env [d] c) =
           (case reconnectTimeoutHandle c of None \<Rightarrow> [] | Some h \<Rightarrow> [ClearTimeout h]) @
           [SetTimeout (next_handle c) (js_times (streamReconnectTimeout c) 1000)] \<and>
         last (emitted_conn cfg env [d] c) =
           SetTimeout (next_handle c) (js_times (streamReconnectTimeout c) 1000)"
  using assms(2)
  by (cases d; cases "reconnectTimeoutHandle c")
     (simp_all add: emitted_conn_def after_def conn_defs)

section \<open>The numbers of the backoff\<close>




lemma power_of_two_Finite: "k < 1024 \<Longrightarrow> power_of_two (Finite (2 ^ k))"
  unfolding power_of_two_def by (rule disjI2, rule exI [of _ k]) simp

lemma power_of_two_doubled: "power_of_two x \<Longrightarrow> power_of_two (js_times x 2)"
proof -
  assume "power_of_two x"
  then consider "x = Infinity" | k where "k < 1024" "x = Finite (2 ^ k)"
    by (auto simp: power_of_two_def)
  then show ?thesis
  proof cases
    case 1
    then show ?thesis by (simp add: js_times_def power_of_two_def)
  next
    case 2
    have "js_times (Finite (2 ^ k)) 2 = (if Suc k < 1024 then Finite (2 ^ Suc k) else Infinity)"
      using power_strict_increasing_iff [of "2::nat" "Suc k" 1024]
      by (auto simp: js_times_def mult.commute)
    then show ?thesis
      unfolding 2(2)
      by (cases "Suc k < 1024") (simp_all only: if_True if_False power_of_two_Finite,
                                 simp add: power_of_two_def)
  qed
qed

lemma reconnectStream_delay [simp]:
  "streamReconnectTimeout (reconnectStream env c) = streamReconnectTimeout c"
  by (simp add: conn_defs split: option.splits)

lemma power_of_two_on_signal:
  "power_of_two (streamReconnectTimeout c) \<Longrightarrow>
   power_of_two (streamReconnectTimeout (snd (on_signal cfg env s c)))"
proof (cases s)
  case Ready
  have "power_of_two (Finite (2 ^ 0))" by (rule power_of_two_Finite) simp
  then show ?thesis by (simp add: Ready Let_def)
next
  case (TimerFired h)
  assume "power_of_two (streamReconnectTimeout c)"
  then show ?thesis
    by (simp add: TimerFired reconnectSocket_fields power_of_two_doubled)
next
  case (RulesUpdated err)
  assume "power_of_two (streamReconnectTimeout c)"
  then show ?thesis by (cases err) (simp_all add: RulesUpdated)
qed simp_all

text \<open>
  In every state the connection can reach, \<open>streamReconnectTimeout\<close> is a power of two
  below \<open>2 ^ 1024\<close> or \<^verbatim>\<open>Infinity\<close>: the products \<open>js_times\<close> is applied to are those it
  computes as a double does.
\<close>

lemma power_of_two_after:
  "power_of_two (streamReconnectTimeout (after cfg env history (connectStream cfg w)))"
proof -
  have step: "power_of_two (streamReconnectTimeout c) \<Longrightarrow>
              power_of_two (streamReconnectTimeout (after cfg env ss c))" for ss c
  proof (induction ss arbitrary: c)
    case Nil
    then show ?case by simp
  next
    case (Cons s ss)
    show ?case
    proof (cases "on_signal cfg env s c")
      case (Pair x c')
      have c': "power_of_two (streamReconnectTimeout c')"
        using power_of_two_on_signal [OF Cons.prems, of cfg env s] by (simp add: Pair)
      show ?thesis
        using Cons.IH [OF c'] c' by (cases x) (simp_all add: after_def Pair)
    qed
  qed
  have "power_of_two (Finite (2 ^ 0))" by (rule power_of_two_Finite) simp
  then have "power_of_two (streamReconnectTimeout (connectStream cfg w))"
    by (simp add: connectStream_def Let_def)
  then show ?thesis by (rule step)
qed





text \<open>
  C5. In every state the connection can reach at most one reconnect timer is pending,
  and it is the one \<open>reconnectTimeoutHandle\<close> names. After any non-empty burst of
  disconnect triggers (idle timeout, \<^verbatim>\<open>error\<close>, \<^verbatim>\<open>end\<close>) exactly one is pending, with the
  current delay: each trigger clears the timer the handle names and then sets a new
  one, so the pending timer is replaced, never stacked.
\<close>

theorem one_reconnect_scheduled:
  "length (timers (after cfg env history (connectStream cfg w))) \<le> 1 \<and>
   list_all (\<lambda>p. reconnectTimeoutHandle (after cfg env history (connectStream cfg w)) =
                  Some (fst p))
     (timers (after cfg env history (connectStream cfg w))) \<and>
   (burst \<noteq> [] \<and> list_all is_trigger burst \<longrightarrow>
      map snd (timers (after cfg env burst (after cfg env history (connectStream cfg w)))) =
        [timer_delay
           (js_times (streamReconnectTimeout (after cfg env history (connectStream cfg w)))
              1000)]) \<and>
   (is_trigger d \<longrightarrow>
      timers (after cfg env [d] (after cfg env history (connectStream cfg w))) =
        [(next_handle (after cfg env history (connectStream cfg w)),
          timer_delay
            (js_times (streamReconnectTimeout (after cfg env history (connectStream cfg w)))
               1000))] \<and>
      filter is_timer_call
        (emitted_conn cfg env [d] (after cfg env history (connectStream cfg w))) =
        (case reconnectTimeoutHandle (after cfg env history (connectStream cfg w)) of
           None \<Rightarrow> []
         | Some h \<Rightarrow> [ClearTimeout h]) @
        [SetTimeout (next_handle (after cfg env history (connectStream cfg w)))
           (js_times (streamReconnectTimeout (after cfg env history (connectStream cfg w)))
              1000)])"
proof -
  let ?c = "after cfg env history (connectStream cfg w)"
  let ?ms = "js_times (streamReconnectTimeout ?c) 1000"
  have o: "one_timer ?c"
    by (intro one_timer_after one_timer_connectStream)
  have 1: "length (timers ?c) \<le> 1"
    "list_all (\<lambda>p. reconnectTimeoutHandle ?c = Some (fst p)) (timers ?c)"
    using o by (simp_all add: one_timer_def)
  have 2: "burst \<noteq> [] \<and> list_all is_trigger burst \<longrightarrow>
      map snd (timers (after cfg env burst ?c)) = [timer_delay ?ms]"
    using burst_timers [OF o, of burst cfg env] by auto
  have 3: "is_trigger d \<longrightarrow>
      timers (after cfg env [d] ?c) = [(next_handle ?c, timer_delay ?ms)] \<and>
      filter is_timer_call (emitted_conn cfg env [d] ?c) =
        (case reconnectTimeoutHandle ?c of None \<Rightarrow> [] | Some h \<Rightarrow> [ClearTimeout h]) @
        [SetTimeout (next_handle ?c) ?ms]"
    using trigger_timers [OF o, of d cfg env] trigger_trace [OF o, of d cfg env] by blast
  show ?thesis
    using 1 2 3 by (intro conjI)
qed

lemma js_times_small: "n * k \<le> 4294967296 \<Longrightarrow> js_times (Finite n) k = Finite (n * k)"
proof -
  assume "n * k \<le> 4294967296"
  also have "(4294967296::nat) = 2 ^ 32" by simp
  also have "(2::nat) ^ 32 < 2 ^ 1024" by (intro power_strict_increasing) simp_all
  finally show ?thesis by (simp add: js_times_def)
qed

theorem one_reconnect_scheduled_witness:
  "timers (after example_config healthy [StreamError ''ECONNRESET'', StreamEnd, SocketTimeout]
             (after example_config healthy [RulesUpdated None, Ready]
                (connectStream example_config fresh))) = [(2, 1000)] \<and>
   filter is_timer_call
     (emitted_conn example_config healthy [StreamEnd]
        (after example_config healthy [RulesUpdated None, Ready, StreamError ''ECONNRESET'']
           (connectStream example_config fresh))) = [ClearTimeout 0, SetTimeout 1 (Finite 1000)]"
proof -
  have u: "has_url example_config" by (simp add: has_url_def example_config_def)
  have 1: "timers (after example_config healthy
             [StreamError ''ECONNRESET'', StreamEnd, SocketTimeout]
             (after example_config healthy [RulesUpdated None, Ready]
                (connectStream example_config fresh))) = [(2, 1000)]"
    by (simp add: after_def connectStream_def conn_defs u js_times_small timer_delay_def)
  have 2: "reconnectTimeoutHandle
      (after example_config healthy [RulesUpdated None, Ready, StreamError ''ECONNRESET'']
           (connectStream example_config fresh)) = Some 0"
    "next_handle
      (after example_config healthy [RulesUpdated None, Ready, StreamError ''ECONNRESET'']
           (connectStream example_config fresh)) = 1"
    "streamReconnectTimeout
      (after example_config healthy [RulesUpdated None, Ready, StreamError ''ECONNRESET'']
           (connectStream example_config fresh)) = Finite 1"
    by (simp_all add: after_def connectStream_def conn_defs u js_times_small timer_delay_def)
  show ?thesis
    using one_reconnect_scheduled [of example_config healthy
        "[RulesUpdated None, Ready, StreamError ''ECONNRESET'']" fresh "[StreamEnd]" StreamEnd]
    by (simp add: 1 2 js_times_small)
qed

section \<open>The handlers that let an exception escape\<close>

lemma dbQuery_no_throw: "fst (dbQuery cfg env q s w) = None"
proof (cases "connect_err env (connects w)")
  case (Some e)
  then show ?thesis by (simp add: dbQuery_connect_err)
next
  case None
  show ?thesis
  proof (cases "query_err env (queries w)")
    case (Some e)
    with None show ?thesis by (simp add: dbQuery_query_err)
  next
    case q: None
    with None show ?thesis
      by (cases s)
         (simp_all add: dbQuery_ok skip_def try_catch_def callback_error_def logger_def emit_def
            split: prod.splits option.splits)
  qed
qed

text \<open>
  The transport errors are logged and a reconnect is queued: the handlers of \<^verbatim>\<open>error\<close> and
  \<^verbatim>\<open>end\<close> log the error and call \<^verbatim>\<open>reconnectStream\<close>, the idle timeout calls
  \<^verbatim>\<open>reconnectStream\<close>, which logs the delay it queues the reconnect for. None of them
  throws.
\<close>

lemma transport_errors_logged:
  "on_signal cfg env (StreamError err) c =
     (None, reconnectStream env
              (observe (Log Error (''connectStream: Error connecting stream:'' @ err)) c))"
  "on_signal cfg env StreamEnd c =
     (None, reconnectStream env (observe (Log Error ''connectStream: Stream ended'') c))"
  "on_signal cfg env SocketTimeout c = (None, reconnectStream env c)"
  "reconnectTimeoutHandle c = None \<Longrightarrow>
   emitted_conn cfg env [StreamError err] c =
     [Log Error (''connectStream: Error connecting stream:'' @ err),
      Log Info (''connectStream: queing reconnect for '' @
                number_text env (streamReconnectTimeout c)),
      SetTimeout (next_handle c) (js_times (streamReconnectTimeout c) 1000)]"
  "reconnectTimeoutHandle c = Some h \<Longrightarrow>
   emitted_conn cfg env [StreamEnd] c =
     [Log Error ''connectStream: Stream ended'', ClearTimeout h,
      Log Info (''connectStream: queing reconnect for '' @
                number_text env (streamReconnectTimeout c)),
      SetTimeout (next_handle c) (js_times (streamReconnectTimeout c) 1000)]"
  by (simp_all add: emitted_conn_def after_def conn_defs)

text \<open>
  A handler lets an exception escape in three cases: the callback of \<^verbatim>\<open>rules.update\<close>
  is called with an error; \<^verbatim>\<open>stream.start()\<close> is called, by that callback or by
  \<^verbatim>\<open>reconnectSocket\<close>, and the stream has no url; \<^verbatim>\<open>ready\<close> arrives and \<^verbatim>\<open>stream._req\<close> does
  not exist.
\<close>

lemma on_signal_fatal:
  "(fst (on_signal cfg env s c) \<noteq> None) =
     ((\<exists>e. s = RulesUpdated (Some e)) \<or>
      (\<not> has_url cfg \<and>
         (s = RulesUpdated None \<or> (\<exists>h. s = TimerFired h \<and> h \<in> set (map fst (timers c))))) \<or>
      (s = Ready \<and> \<not> stream_req c))"
proof (cases s)
  case (Tweet t)
  then show ?thesis by (simp add: on_tweet del: on_signal.simps)
next
  case (RulesUpdated err)
  then show ?thesis by (cases err) simp_all
next
  case (TimerFired h)
  then show ?thesis by (simp add: reconnectSocket_fields)
qed (simp_all add: Let_def)

text \<open>
  C7. With the stream url as \<^verbatim>\<open>powertrack-config.js\<close> gives it, the rules are pushed and
  \<^verbatim>\<open>rules.update\<close> calls back without an error: the callback logs that it connects the
  stream and calls \<^verbatim>\<open>stream.start()\<close>, which throws since the stream has no url. The
  exception leaves the callback and ends the process, though the rules were pushed
  successfully. With a url under the name \<^verbatim>\<open>connectStream\<close> reads, the same callback
  returns.
\<close>

theorem stream_start_without_url_is_fatal:
  "steamUrl as_shipped = None \<and>
   run as_shipped healthy [RulesUpdated None] (connectStream as_shipped fresh) =
     (Some InvalidEndpoint,
      observe StreamStart
        (observe (Log Info ''connectStream: Connecting stream...'')
           (connectStream as_shipped fresh))) \<and>
   emitted_conn as_shipped healthy [RulesUpdated None] (connectStream as_shipped fresh) =
     [Log Info ''connectStream: Connecting stream...'', StreamStart] \<and>
   run example_config healthy [RulesUpdated None] (connectStream example_config fresh) =
     (None,
      (observe StreamStart
         (observe (Log Info ''connectStream: Connecting stream...'')
            (connectStream example_config fresh)))\<lparr>stream_req := True\<rparr>) \<and>
   run example_config healthy [RulesUpdated (Some ''401'')] (connectStream example_config fresh) =
     (Some (Rethrown ''401''), connectStream example_config fresh)"
proof -
  have u: "\<not> has_url as_shipped" "has_url example_config" "steamUrl as_shipped = None"
    by (simp_all add: has_url_def as_shipped_def example_config_def)
  have 1: "run as_shipped healthy [RulesUpdated None] (connectStream as_shipped fresh) =
     (Some InvalidEndpoint,
      observe StreamStart
        (observe (Log Info ''connectStream: Connecting stream...'')
           (connectStream as_shipped fresh)))"
    by (simp add: u stream_start_def Let_def)
  have 2: "emitted_conn as_shipped healthy [RulesUpdated None] (connectStream as_shipped fresh) =
     [Log Info ''connectStream: Connecting stream...'', StreamStart]"
    by (simp add: u emitted_conn_def after_def connectStream_def conn_defs)
  have 3: "run example_config healthy [RulesUpdated None] (connectStream example_config fresh) =
     (None,
      (observe StreamStart
         (observe (Log Info ''connectStream: Connecting stream...'')
            (connectStream example_config fresh)))\<lparr>stream_req := True\<rparr>)"
    by (simp add: u stream_start_def Let_def)
  have 4: "run example_config healthy [RulesUpdated (Some ''401'')]
             (connectStream example_config fresh) =
     (Some (Rethrown ''401''), connectStream example_config fresh)"
    by simp
  show ?thesis
    using u(3) 1 2 3 4 by (intro conjI)
qed

end
